theory Spec2Isabelle
  imports Main "HOL-Library.Sublist"
begin

section \<open>Python primitives used by the supplementation cell\<close>

text \<open>
  The cell uses four operations of the Python runtime: \<open>str(i)\<close> on a non-negative
  integer, \<open>needle in haystack\<close> on strings, \<open>s.split(sep)\<close> with a one-character
  separator, and \<open>xs[-1]\<close>. They are written out here with the behaviour Python gives
  them; \<open>xs[-1]\<close> raises \<open>IndexError\<close> on an empty list, which is a value of the model.
\<close>

datatype py_error = IndexError

abbreviation nl :: char where
  "nl \<equiv> CHR 0x0A"

abbreviation tab :: char where
  "tab \<equiv> CHR 0x09"

definition digit :: "nat \<Rightarrow> char" where
  "digit d = ''0123456789'' ! d"

text \<open>\<open>str(i)\<close>: the decimal numeral of \<open>i\<close>, without leading zeros.\<close>

fun str :: "nat \<Rightarrow> string" where
  "str n = (if n < 10 then [digit n] else str (n div 10) @ [digit (n mod 10)])"

declare str.simps [simp del]

text \<open>\<open>needle in haystack\<close>: the needle occurs as a contiguous run of the haystack.\<close>

fun py_in :: "string \<Rightarrow> string \<Rightarrow> bool" where
  "py_in needle [] = (needle = [])"
| "py_in needle (c # cs) = (prefix needle (c # cs) \<or> py_in needle cs)"

text \<open>
  \<open>s.split(sep)\<close>: the segments between the occurrences of \<open>sep\<close>; \<open>cur\<close> is the
  segment being read.
\<close>

fun split_acc :: "char \<Rightarrow> string \<Rightarrow> string \<Rightarrow> string list" where
  "split_acc sep cur [] = [cur]"
| "split_acc sep cur (c # cs) =
     (if c = sep then cur # split_acc sep [] cs else split_acc sep (cur @ [c]) cs)"

definition split :: "char \<Rightarrow> string \<Rightarrow> string list" where
  "split sep s = split_acc sep [] s"

text \<open>\<open>xs[-1]\<close>\<close>

definition index_last :: "'a list \<Rightarrow> py_error + 'a" where
  "index_last xs = (if xs = [] then Inl IndexError else Inr (last xs))"


section \<open>Records and output files\<close>

text \<open>
  A parsed FASTA record, with the two attributes the cell reads: \<open>entry.description\<close>
  and \<open>entry.seq\<close>.
\<close>

record entry =
  description :: string
  seq :: string

text \<open>The contents of the three files the cell writes.\<close>

record files =
  silva_taxonomy :: string
  gg_taxonomy :: string
  organelle_seqs :: string

definition silva_mitochondria_prefix :: string where
  "silva_mitochondria_prefix =
     ''d__Bacteria; p__Proteobacteria; c__Alphaproteobacteria; o__Rickettsiales; f__Mitochondria; g__Mitochondria; s__''"

definition silva_chloroplast_prefix :: string where
  "silva_chloroplast_prefix =
     ''d__Bacteria; p__Cyanobacteria; c__Cyanobacteriia; o__Chloroplast; f__Chloroplast; g__Chloroplast; s__''"

definition greengenes_mitochondria_prefix :: string where
  "greengenes_mitochondria_prefix =
     ''k__Bacteria; p__Proteobacteria; c__Alphaproteobacteria; o__Rickettsiales; f__mitochondria; g__Mitochondria; s__''"

definition greengenes_chloroplast_prefix :: string where
  "greengenes_chloroplast_prefix =
     ''k__Bacteria; p__Cyanobacteria; c__Chloroplast; o__Chloroplast; f__Chloroplast; g__Chloroplast; s__''"

definition header :: string where
  "header = ''Feature ID'' @ [tab] @ ''Taxon'' @ [nl]"


section \<open>The supplementation cell\<close>

text \<open>A \<open>for\<close> loop whose body may raise: the first error ends the loop.\<close>

fun for_each :: "('a \<Rightarrow> 's \<Rightarrow> py_error + 's) \<Rightarrow> 'a list \<Rightarrow> 's \<Rightarrow> py_error + 's" where
  "for_each body [] s = Inr s"
| "for_each body (x # xs) s =
     (case body x s of Inl e \<Rightarrow> Inl e | Inr s' \<Rightarrow> for_each body xs s')"

text \<open>The tests of the two \<open>if\<close> statements.\<close>

definition mitochondria_test :: "entry \<Rightarrow> bool" where
  "mitochondria_test e \<longleftrightarrow>
     py_in ''mitochondria'' (description e) \<or> py_in ''Mitochondria'' (description e)"

definition chloroplast_test :: "entry \<Rightarrow> bool" where
  "chloroplast_test e \<longleftrightarrow> \<not> py_in ''XXXXXXXXXX'' (seq e)"

text \<open>Body of the loop over \<open>enumerate(SeqIO.parse(metaxa2.fasta))\<close>.\<close>

definition mitochondria_body :: "nat \<times> entry \<Rightarrow> files \<Rightarrow> py_error + files" where
  "mitochondria_body ie f =
     (case ie of (i, e) \<Rightarrow>
        if mitochondria_test e then
          (let f = f\<lparr>organelle_seqs := organelle_seqs f @ ''>metaxa2_mitochondria_'' @ str i @ [nl]\<rparr>;
               f = f\<lparr>organelle_seqs := organelle_seqs f @ seq e @ [nl]\<rparr>
           in case index_last (split CHR '';'' (description e)) of
                Inl err \<Rightarrow> Inl err
              | Inr specific_info \<Rightarrow>
                  (let f = f\<lparr>silva_taxonomy := silva_taxonomy f @ ''metaxa2_mitochondria_'' @ str i
                              @ [tab] @ silva_mitochondria_prefix @ specific_info @ [nl]\<rparr>;
                       f = f\<lparr>gg_taxonomy := gg_taxonomy f @ ''metaxa2_mitochondria_'' @ str i
                              @ [tab] @ greengenes_mitochondria_prefix @ specific_info @ [nl]\<rparr>
                   in Inr f))
        else Inr f)"

text \<open>Body of the loop over \<open>enumerate(SeqIO.parse(PhytoRef_with_taxonomy.fasta))\<close>.\<close>

definition chloroplast_body :: "nat \<times> entry \<Rightarrow> files \<Rightarrow> py_error + files" where
  "chloroplast_body ie f =
     (case ie of (i, e) \<Rightarrow>
        if chloroplast_test e then
          (let f = f\<lparr>organelle_seqs := organelle_seqs f @ ''>phytoref_chloroplast_'' @ str i @ [nl]\<rparr>;
               f = f\<lparr>organelle_seqs := organelle_seqs f @ seq e @ [nl]\<rparr>
           in case index_last (split CHR ''|'' (description e)) of
                Inl err \<Rightarrow> Inl err
              | Inr specific_info \<Rightarrow>
                  (let f = f\<lparr>silva_taxonomy := silva_taxonomy f @ ''phytoref_chloroplast_'' @ str i
                              @ [tab] @ silva_chloroplast_prefix @ specific_info @ [nl]\<rparr>;
                       f = f\<lparr>gg_taxonomy := gg_taxonomy f @ ''phytoref_chloroplast_'' @ str i
                              @ [tab] @ greengenes_chloroplast_prefix @ specific_info @ [nl]\<rparr>
                   in Inr f))
        else Inr f)"

text \<open>
  The whole cell. Both notebooks hold it, with the same strings: one names the four
  prefixes, the other writes them out in place. \<open>old\<close> is what the three files held
  before the run: each \<open>open(path, 'w')\<close> truncates its file. The header rows are
  written before the FASTA file is opened, then the two loops run one after the other,
  each with its own \<open>enumerate\<close> starting at 0.
\<close>

definition supplement :: "files \<Rightarrow> entry list \<Rightarrow> entry list \<Rightarrow> py_error + files" where
  "supplement old metaxa2 phytoref =
     (let f = old\<lparr>silva_taxonomy := []\<rparr>;
          f = f\<lparr>gg_taxonomy := []\<rparr>;
          f = f\<lparr>silva_taxonomy := silva_taxonomy f @ header\<rparr>;
          f = f\<lparr>gg_taxonomy := gg_taxonomy f @ header\<rparr>;
          f = f\<lparr>organelle_seqs := []\<rparr>
      in case for_each mitochondria_body (enumerate 0 metaxa2) f of
           Inl err \<Rightarrow> Inl err
         | Inr f \<Rightarrow> for_each chloroplast_body (enumerate 0 phytoref) f)"


section \<open>What the outputs are made of\<close>

text \<open>
  The vocabulary of the specification, used to state what the cell computes: the
  category of a record, its synthetic feature identifier, the last segment of a
  description, the rows and entries written for one retained record, and the retained
  records of a run, each with its category and its position in its own input.
\<close>

datatype category = Mitochondria | Chloroplast

fun feature_id :: "category \<Rightarrow> nat \<Rightarrow> string" where
  "feature_id Mitochondria i = ''metaxa2_mitochondria_'' @ str i"
| "feature_id Chloroplast i = ''phytoref_chloroplast_'' @ str i"

fun delimiter :: "category \<Rightarrow> char" where
  "delimiter Mitochondria = CHR '';''"
| "delimiter Chloroplast = CHR ''|''"

fun silva_prefix :: "category \<Rightarrow> string" where
  "silva_prefix Mitochondria = silva_mitochondria_prefix"
| "silva_prefix Chloroplast = silva_chloroplast_prefix"

fun greengenes_prefix :: "category \<Rightarrow> string" where
  "greengenes_prefix Mitochondria = greengenes_mitochondria_prefix"
| "greengenes_prefix Chloroplast = greengenes_chloroplast_prefix"

text \<open>The part of \<open>s\<close> after its last \<open>sep\<close>; all of \<open>s\<close> when it has none.\<close>

definition last_segment :: "char \<Rightarrow> string \<Rightarrow> string" where
  "last_segment sep s = rev (takeWhile (\<lambda>c. c \<noteq> sep) (rev s))"

definition species_field :: "category \<Rightarrow> entry \<Rightarrow> string" where
  "species_field c e = last_segment (delimiter c) (description e)"

definition fasta_entry :: "category \<times> nat \<times> entry \<Rightarrow> string" where
  "fasta_entry r = (case r of (c, i, e) \<Rightarrow> ''>'' @ feature_id c i @ [nl] @ seq e @ [nl])"

definition silva_row :: "category \<times> nat \<times> entry \<Rightarrow> string" where
  "silva_row r =
     (case r of (c, i, e) \<Rightarrow> feature_id c i @ [tab] @ silva_prefix c @ species_field c e @ [nl])"

definition greengenes_row :: "category \<times> nat \<times> entry \<Rightarrow> string" where
  "greengenes_row r =
     (case r of (c, i, e) \<Rightarrow>
        feature_id c i @ [tab] @ greengenes_prefix c @ species_field c e @ [nl])"

definition retained_mitochondria :: "entry list \<Rightarrow> (category \<times> nat \<times> entry) list" where
  "retained_mitochondria ms =
     map (Pair Mitochondria) (filter (\<lambda>(i, e). mitochondria_test e) (enumerate 0 ms))"

definition retained_chloroplast :: "entry list \<Rightarrow> (category \<times> nat \<times> entry) list" where
  "retained_chloroplast cs =
     map (Pair Chloroplast) (filter (\<lambda>(i, e). chloroplast_test e) (enumerate 0 cs))"

definition retained :: "entry list \<Rightarrow> entry list \<Rightarrow> (category \<times> nat \<times> entry) list" where
  "retained ms cs = retained_mitochondria ms @ retained_chloroplast cs"

text \<open>The three files after the rows and entries of the records \<open>rs\<close> have been appended.\<close>

definition append_records :: "(category \<times> nat \<times> entry) list \<Rightarrow> files \<Rightarrow> files" where
  "append_records rs f =
     f\<lparr>silva_taxonomy := silva_taxonomy f @ concat (map silva_row rs),
       gg_taxonomy := gg_taxonomy f @ concat (map greengenes_row rs),
       organelle_seqs := organelle_seqs f @ concat (map fasta_entry rs)\<rparr>"


section \<open>The Python primitives\<close>

lemma py_in_iff: "py_in needle hay \<longleftrightarrow> (\<exists>ps ss. hay = ps @ needle @ ss)"
proof (induction hay)
  case Nil
  show ?case by auto
next
  case (Cons c cs)
  show ?case
  proof
    assume "py_in needle (c # cs)"
    then consider "prefix needle (c # cs)" | "py_in needle cs" by auto
    then show "\<exists>ps ss. c # cs = ps @ needle @ ss"
    proof cases
      case 1
      then obtain ss where "c # cs = needle @ ss" by (auto simp: prefix_def)
      then have "c # cs = [] @ needle @ ss" by simp
      then show ?thesis by blast
    next
      case 2
      with Cons.IH obtain ps ss where "cs = ps @ needle @ ss" by blast
      then have "c # cs = (c # ps) @ needle @ ss" by simp
      then show ?thesis by blast
    qed
  next
    assume "\<exists>ps ss. c # cs = ps @ needle @ ss"
    then obtain ps ss where eq: "c # cs = ps @ needle @ ss" by blast
    show "py_in needle (c # cs)"
    proof (cases ps)
      case Nil
      with eq have "prefix needle (c # cs)" by (simp add: prefix_def)
      then show ?thesis by simp
    next
      case (Cons p ps')
      with eq have "cs = ps' @ needle @ ss" by simp
      with Cons.IH have "py_in needle cs" by blast
      then show ?thesis by simp
    qed
  qed
qed

lemma split_acc_not_Nil: "split_acc sep cur s \<noteq> []"
  by (induction s arbitrary: cur) auto

lemma last_split_acc:
  "last (split_acc sep cur s) = (if sep \<in> set s then last_segment sep s else cur @ s)"
  unfolding last_segment_def
proof (induction s arbitrary: cur)
  case Nil
  show ?case by simp
next
  case (Cons c cs)
  show ?case
  proof (cases "c = sep")
    case True
    then show ?thesis
      using Cons.IH [of "[]"] by (auto simp: split_acc_not_Nil takeWhile_append)
  next
    case False
    then show ?thesis
      using Cons.IH [of "cur @ [c]"] by (auto simp: takeWhile_append)
  qed
qed

lemma last_segment_no_sep: "sep \<notin> set s \<Longrightarrow> last_segment sep s = s"
proof -
  assume "sep \<notin> set s"
  then have "takeWhile (\<lambda>c. c \<noteq> sep) (rev s) = rev s"
    by (intro takeWhile_eq_all_conv [THEN iffD2]) auto
  then show ?thesis by (simp only: last_segment_def rev_rev_ident)
qed

lemma index_last_split: "index_last (split sep s) = Inr (last_segment sep s)"
  by (simp add: index_last_def split_def split_acc_not_Nil last_split_acc last_segment_no_sep)

lemma split_no_sep: "sep \<notin> set s \<Longrightarrow> split sep s = [s]"
proof -
  have "sep \<notin> set s \<Longrightarrow> split_acc sep cur s = [cur @ s]" for cur
    by (induction s arbitrary: cur) auto
  then show "sep \<notin> set s \<Longrightarrow> split sep s = [s]"
    by (simp add: split_def)
qed

lemma digit_code_all: "\<forall>d \<in> set [0..<10]. of_char (digit d) = 48 + d"
  by code_simp

lemma digit_code: "d < 10 \<Longrightarrow> of_char (digit d) = 48 + d"
  using digit_code_all by simp

lemma digit_inj:
  assumes a: "a < 10" and b: "b < 10" and eq: "digit a = digit b"
  shows "a = b"
proof -
  have "(of_char (digit a) :: nat) = of_char (digit b)"
    by (simp only: eq)
  then have "48 + a = 48 + b"
    by (simp only: digit_code [OF a] digit_code [OF b])
  then show ?thesis by (simp only: add_left_cancel)
qed

lemma str_not_Nil: "str n \<noteq> []"
  by (subst str.simps) simp

lemma str_small: "n < 10 \<Longrightarrow> str n = [digit n]"
  by (subst str.simps) simp

lemma str_large: "\<not> n < 10 \<Longrightarrow> str n = str (n div 10) @ [digit (n mod 10)]"
  by (subst str.simps) simp

lemma str_inj: "str n = str m \<Longrightarrow> n = m"
proof (induction n arbitrary: m rule: str.induct)
  case (1 n)
  show ?case
  proof (cases "n < 10")
    case True
    have m: "m < 10"
    proof (rule ccontr)
      assume "\<not> m < 10"
      with True "1.prems" have "[digit n] = str (m div 10) @ [digit (m mod 10)]"
        by (simp add: str_small str_large)
      then show False using str_not_Nil [of "m div 10"] by simp
    qed
    with True "1.prems" have "digit n = digit m"
      by (simp add: str_small)
    with True m show ?thesis by (rule digit_inj)
  next
    case False
    have m: "\<not> m < 10"
    proof
      assume "m < 10"
      with False "1.prems" have "str (n div 10) @ [digit (n mod 10)] = [digit m]"
        by (simp add: str_small str_large)
      then show False using str_not_Nil [of "n div 10"] by simp
    qed
    with False "1.prems" have eq: "str (n div 10) = str (m div 10)"
      and d: "digit (n mod 10) = digit (m mod 10)"
      by (simp_all add: str_large)
    from False eq have q: "n div 10 = m div 10" by (rule "1.IH")
    have r: "n mod 10 = m mod 10" by (rule digit_inj [OF _ _ d]) simp_all
    have "n = 10 * (n div 10) + n mod 10" by simp
    also have "\<dots> = 10 * (m div 10) + m mod 10" by (simp only: q r)
    also have "\<dots> = m" by simp
    finally show ?thesis .
  qed
qed

lemma str_value: "foldl (\<lambda>a c. 10 * a + (of_char c - 48)) 0 (str n) = n"
proof (induction n rule: str.induct)
  case (1 n)
  show ?case
  proof (cases "n < 10")
    case True
    then show ?thesis by (simp add: str_small digit_code)
  next
    case False
    have "n mod 10 < 10" by simp
    then have "of_char (digit (n mod 10)) - 48 = n mod 10"
      by (simp only: digit_code)
    with "1.IH" [OF False] show ?thesis
      by (simp add: str_large [OF False])
  qed
qed

lemma str_leading_zero: "hd (str n) = CHR ''0'' \<longleftrightarrow> n = 0"
proof (induction n rule: str.induct)
  case (1 n)
  have zero: "digit 0 = CHR ''0''" by (simp add: digit_def)
  show ?case
  proof (cases "n < 10")
    case True
    then show ?thesis
      using digit_inj [of n 0] zero by (auto simp: str_small)
  next
    case False
    then have "n div 10 \<noteq> 0" by simp
    with "1.IH" [OF False] False show ?thesis
      by (simp add: str_large [OF False] str_not_Nil)
  qed
qed

lemma split_acc_join:
  "concat (map (\<lambda>seg. seg @ [sep]) (split_acc sep cur s)) = cur @ s @ [sep]"
  by (induction s arbitrary: cur) auto

lemma split_acc_segments:
  "sep \<notin> set cur \<Longrightarrow> \<forall>seg \<in> set (split_acc sep cur s). sep \<notin> set seg"
proof (induction s arbitrary: cur)
  case Nil
  then show ?case by simp
next
  case (Cons c cs)
  show ?case
  proof (cases "c = sep")
    case True
    with Cons.prems Cons.IH [of "[]"] show ?thesis by simp
  next
    case False
    with Cons.prems Cons.IH [of "cur @ [c]"] show ?thesis by simp
  qed
qed

lemma split_join: "concat (map (\<lambda>seg. seg @ [sep]) (split sep s)) = s @ [sep]"
  by (simp add: split_def split_acc_join)

lemma split_segments: "seg \<in> set (split sep s) \<Longrightarrow> sep \<notin> set seg"
  using split_acc_segments [of sep "[]" s] by (simp add: split_def)

lemma length_split: "length (split sep s) = Suc (count_list s sep)"
proof -
  have "length (split_acc sep cur s) = Suc (count_list s sep)" for cur
    by (induction s arbitrary: cur) auto
  then show ?thesis by (simp add: split_def)
qed

lemma digit_in_digits: "d < 10 \<Longrightarrow> digit d \<in> set ''0123456789''"
  unfolding digit_def by (rule nth_mem) simp

lemma str_digits: "set (str n) \<subseteq> set ''0123456789''"
proof (induction n rule: str.induct)
  case (1 n)
  show ?case
  proof (cases "n < 10")
    case True
    then show ?thesis
      using digit_in_digits [of n] by (simp add: str_small)
  next
    case False
    have "n mod 10 < 10" by simp
    then have "digit (n mod 10) \<in> set ''0123456789''" by (rule digit_in_digits)
    with "1.IH" [OF False] show ?thesis
      by (simp add: str_large [OF False])
  qed
qed

lemma nl_notin_str: "nl \<notin> set (str n)"
  using str_digits [of n] by auto


section \<open>The two loops\<close>

lemma mitochondria_body_eq:
  "mitochondria_body (i, e) f =
     Inr (if mitochondria_test e then append_records [(Mitochondria, i, e)] f else f)"
  by (simp add: mitochondria_body_def index_last_split append_records_def fasta_entry_def
      silva_row_def greengenes_row_def species_field_def Let_def)

lemma chloroplast_body_eq:
  "chloroplast_body (i, e) f =
     Inr (if chloroplast_test e then append_records [(Chloroplast, i, e)] f else f)"
  by (simp add: chloroplast_body_def index_last_split append_records_def fasta_entry_def
      silva_row_def greengenes_row_def species_field_def Let_def)

lemma append_records_Nil: "append_records [] f = f"
  by (simp add: append_records_def)

lemma append_records_append:
  "append_records (rs @ rs') f = append_records rs' (append_records rs f)"
  by (simp add: append_records_def)

lemma append_records_Cons:
  "append_records (r # rs) f = append_records rs (append_records [r] f)"
  using append_records_append [of "[r]" rs f] by simp

lemma for_each_mitochondria:
  "for_each mitochondria_body xs f =
     Inr (append_records (map (Pair Mitochondria) (filter (\<lambda>(i, e). mitochondria_test e) xs)) f)"
proof (induction xs arbitrary: f)
  case Nil
  show ?case by (simp add: append_records_Nil)
next
  case (Cons x xs)
  obtain i e where x: "x = (i, e)" by (cases x)
  show ?case
    by (simp add: x mitochondria_body_eq Cons.IH append_records_Cons [symmetric])
qed

lemma for_each_chloroplast:
  "for_each chloroplast_body xs f =
     Inr (append_records (map (Pair Chloroplast) (filter (\<lambda>(i, e). chloroplast_test e) xs)) f)"
proof (induction xs arbitrary: f)
  case Nil
  show ?case by (simp add: append_records_Nil)
next
  case (Cons x xs)
  obtain i e where x: "x = (i, e)" by (cases x)
  show ?case
    by (simp add: x chloroplast_body_eq Cons.IH append_records_Cons [symmetric])
qed

lemma supplement_eq:
  "supplement old ms cs =
     Inr \<lparr>silva_taxonomy = header @ concat (map silva_row (retained ms cs)),
          gg_taxonomy = header @ concat (map greengenes_row (retained ms cs)),
          organelle_seqs = concat (map fasta_entry (retained ms cs))\<rparr>"
  by (simp add: supplement_def for_each_mitochondria for_each_chloroplast retained_def
      retained_mitochondria_def [symmetric] retained_chloroplast_def [symmetric]
      append_records_def Let_def)


section \<open>The retained records\<close>

lemma enumerate_nth: "enumerate 0 xs = map (\<lambda>i. (i, xs ! i)) [0..<length xs]"
  by (rule nth_equalityI) (simp_all add: nth_enumerate_eq)

lemma filter_enumerate:
  "filter (\<lambda>(i, e). P e) (enumerate 0 xs) =
     map (\<lambda>i. (i, xs ! i)) (filter (\<lambda>i. P (xs ! i)) [0..<length xs])"
  by (simp add: enumerate_nth filter_map comp_def)

lemma retained_mitochondria_nth:
  "retained_mitochondria ms =
     map (\<lambda>i. (Mitochondria, i, ms ! i)) (filter (\<lambda>i. mitochondria_test (ms ! i)) [0..<length ms])"
  by (simp add: retained_mitochondria_def filter_enumerate)

lemma retained_chloroplast_nth:
  "retained_chloroplast cs =
     map (\<lambda>j. (Chloroplast, j, cs ! j)) (filter (\<lambda>j. chloroplast_test (cs ! j)) [0..<length cs])"
  by (simp add: retained_chloroplast_def filter_enumerate)

lemma snd_filter_enumerate:
  "map snd (filter (\<lambda>(i, e). P e) (enumerate n xs)) = filter P xs"
  by (induction xs arbitrary: n) auto

lemma retained_mitochondria_entries:
  "map (snd \<circ> snd) (retained_mitochondria ms) = filter mitochondria_test ms"
  by (simp add: retained_mitochondria_def comp_def snd_filter_enumerate)

lemma retained_chloroplast_entries:
  "map (snd \<circ> snd) (retained_chloroplast cs) = filter chloroplast_test cs"
  by (simp add: retained_chloroplast_def comp_def snd_filter_enumerate)

lemma length_retained_mitochondria:
  "length (retained_mitochondria ms) = length (filter mitochondria_test ms)"
  using retained_mitochondria_entries [of ms, THEN arg_cong, of length] by simp

lemma length_retained_chloroplast:
  "length (retained_chloroplast cs) = length (filter chloroplast_test cs)"
  using retained_chloroplast_entries [of cs, THEN arg_cong, of length] by simp

lemma feature_id_inj: "feature_id c i = feature_id c' j \<Longrightarrow> c = c' \<and> i = j"
  by (cases c; cases c') (auto dest: str_inj)

lemma distinct_positions:
  "distinct (map fst (filter (\<lambda>(i, e). P e) (enumerate n xs)))"
  by (rule distinct_map_filter) simp

lemma distinct_feature_ids:
  "distinct (map (\<lambda>(c, i, e). feature_id c i) (retained ms cs))"
proof -
  let ?pm = "map fst (filter (\<lambda>(i, e). mitochondria_test e) (enumerate 0 ms))"
  let ?pc = "map fst (filter (\<lambda>(i, e). chloroplast_test e) (enumerate 0 cs))"
  have m: "map (\<lambda>(c, i, e). feature_id c i) (retained_mitochondria ms) = map (feature_id Mitochondria) ?pm"
    by (simp add: retained_mitochondria_def comp_def case_prod_unfold)
  have c: "map (\<lambda>(c, i, e). feature_id c i) (retained_chloroplast cs) = map (feature_id Chloroplast) ?pc"
    by (simp add: retained_chloroplast_def comp_def case_prod_unfold)
  have im: "inj_on (feature_id Mitochondria) (set ?pm)"
    and ic: "inj_on (feature_id Chloroplast) (set ?pc)"
    by (auto intro!: inj_onI dest: feature_id_inj)
  have "distinct (map (feature_id Mitochondria) ?pm)"
    by (rule distinct_map [THEN iffD2, OF conjI [OF distinct_positions im]])
  moreover have "distinct (map (feature_id Chloroplast) ?pc)"
    by (rule distinct_map [THEN iffD2, OF conjI [OF distinct_positions ic]])
  moreover have "set (map (feature_id Mitochondria) ?pm) \<inter> set (map (feature_id Chloroplast) ?pc) = {}"
    by (auto dest: feature_id_inj)
  ultimately show ?thesis
    unfolding retained_def map_append m c by (simp only: distinct_append simp_thms)
qed

lemma append_records_neq: "append_records [r] f \<noteq> f"
proof
  assume "append_records [r] f = f"
  then have "organelle_seqs (append_records [r] f) = organelle_seqs f" by simp
  then show False
    by (cases r) (simp add: append_records_def fasta_entry_def)
qed

lemma last_segment_suffix:
  "sep \<notin> set (last_segment sep s) \<and>
   (s = last_segment sep s \<or> (\<exists>p. s = p @ sep # last_segment sep s))"
proof -
  let ?t = "takeWhile (\<lambda>c. c \<noteq> sep) (rev s)"
  let ?d = "dropWhile (\<lambda>c. c \<noteq> sep) (rev s)"
  have 1: "sep \<notin> set (last_segment sep s)"
    unfolding last_segment_def by (auto dest: set_takeWhileD)
  have "rev s = ?t @ ?d" by simp
  then have s: "s = rev ?d @ rev ?t" by (metis rev_append rev_rev_ident)
  show ?thesis
  proof (cases ?d)
    case Nil
    with s have "s = last_segment sep s" by (simp add: last_segment_def)
    with 1 show ?thesis by simp
  next
    case (Cons d ds)
    then have "d = sep" using hd_dropWhile [of "\<lambda>c. c \<noteq> sep" "rev s"] by auto
    with s Cons have "s = rev ds @ sep # last_segment sep s" by (simp add: last_segment_def)
    with 1 show ?thesis by blast
  qed
qed

lemma for_each_filter_mitochondria:
  "for_each mitochondria_body xs f =
     for_each mitochondria_body (filter (\<lambda>(i, e). mitochondria_test e) xs) f"
  by (simp add: for_each_mitochondria case_prod_unfold)

lemma for_each_filter_chloroplast:
  "for_each chloroplast_body xs f =
     for_each chloroplast_body (filter (\<lambda>(i, e). chloroplast_test e) xs) f"
  by (simp add: for_each_chloroplast case_prod_unfold)

lemma increasing_positions:
  "sorted_wrt (<) (map fst (filter (\<lambda>(i, e). P e) (enumerate n xs)))"
proof -
  have "sorted_wrt (<) (map fst (enumerate n xs))" by simp
  then show ?thesis
    by (induction xs arbitrary: n) (auto simp: in_set_enumerate_eq)
qed


section \<open>Lines of the output files\<close>

lemma nl_notin_feature_id: "nl \<notin> set (feature_id c i)"
  by (cases c) (simp_all add: nl_notin_str)

lemma nl_notin_silva_prefix: "nl \<notin> set (silva_prefix c)"
  by (cases c) (simp_all add: silva_mitochondria_prefix_def silva_chloroplast_prefix_def)

lemma nl_notin_greengenes_prefix: "nl \<notin> set (greengenes_prefix c)"
  by (cases c) (simp_all add: greengenes_mitochondria_prefix_def greengenes_chloroplast_prefix_def)

lemma set_last_segment: "set (last_segment sep s) \<subseteq> set s"
  unfolding last_segment_def by (auto dest: set_takeWhileD)

lemma nl_notin_species_field: "nl \<notin> set (description e) \<Longrightarrow> nl \<notin> set (species_field c e)"
  using set_last_segment [of "delimiter c" "description e"] by (auto simp: species_field_def)

lemma count_nl_silva_row:
  "nl \<notin> set (description e) \<Longrightarrow> count_list (silva_row (c, i, e)) nl = 1"
  by (simp add: silva_row_def nl_notin_feature_id nl_notin_silva_prefix nl_notin_species_field)

lemma count_nl_greengenes_row:
  "nl \<notin> set (description e) \<Longrightarrow> count_list (greengenes_row (c, i, e)) nl = 1"
  by (simp add: greengenes_row_def nl_notin_feature_id nl_notin_greengenes_prefix
      nl_notin_species_field)

lemma count_nl_fasta_entry:
  "nl \<notin> set (seq e) \<Longrightarrow> count_list (fasta_entry (c, i, e)) nl = 2"
  by (simp add: fasta_entry_def nl_notin_feature_id)

lemma count_list_concat_const:
  "(\<And>r. r \<in> set rs \<Longrightarrow> count_list (g r) a = k) \<Longrightarrow>
     count_list (concat (map g rs)) a = k * length rs"
  by (induction rs) simp_all

lemma retained_subset:
  "(c, i, e) \<in> set (retained ms cs) \<Longrightarrow> e \<in> set ms \<union> set cs"
  by (auto simp: retained_def retained_mitochondria_def retained_chloroplast_def
      in_set_enumerate_eq)

lemma length_retained:
  "length (retained ms cs) =
     length (filter mitochondria_test ms) + length (filter chloroplast_test cs)"
  by (simp add: retained_def length_retained_mitochondria length_retained_chloroplast)

lemma line_counts:
  assumes "\<forall>e \<in> set ms \<union> set cs. nl \<notin> set (description e) \<and> nl \<notin> set (seq e)"
  shows "count_list (header @ concat (map silva_row (retained ms cs))) nl =
           1 + length (retained ms cs)"
    and "count_list (header @ concat (map greengenes_row (retained ms cs))) nl =
           1 + length (retained ms cs)"
    and "count_list (concat (map fasta_entry (retained ms cs))) nl =
           2 * length (retained ms cs)"
proof -
  have h: "count_list header nl = 1" by (simp add: header_def)
  have ok: "nl \<notin> set (description e) \<and> nl \<notin> set (seq e)"
    if "(c, i, e) \<in> set (retained ms cs)" for c i e
    using assms retained_subset [OF that] by blast
  have s: "count_list (silva_row r) nl = 1" if r: "r \<in> set (retained ms cs)" for r
  proof -
    obtain c i e where "r = (c, i, e)" by (cases r)
    with r ok [of c i e] show ?thesis by (simp add: count_nl_silva_row)
  qed
  have g: "count_list (greengenes_row r) nl = 1" if r: "r \<in> set (retained ms cs)" for r
  proof -
    obtain c i e where "r = (c, i, e)" by (cases r)
    with r ok [of c i e] show ?thesis by (simp add: count_nl_greengenes_row)
  qed
  have f: "count_list (fasta_entry r) nl = 2" if r: "r \<in> set (retained ms cs)" for r
  proof -
    obtain c i e where "r = (c, i, e)" by (cases r)
    with r ok [of c i e] show ?thesis by (simp add: count_nl_fasta_entry)
  qed
  show "count_list (header @ concat (map silva_row (retained ms cs))) nl =
           1 + length (retained ms cs)"
    using count_list_concat_const [of "retained ms cs" silva_row nl 1, OF s] h by simp
  show "count_list (header @ concat (map greengenes_row (retained ms cs))) nl =
           1 + length (retained ms cs)"
    using count_list_concat_const [of "retained ms cs" greengenes_row nl 1, OF g] h by simp
  show "count_list (concat (map fasta_entry (retained ms cs))) nl =
           2 * length (retained ms cs)"
    using count_list_concat_const [of "retained ms cs" fasta_entry nl 2, OF f] by simp
qed


section \<open>Whole runs\<close>

lemma supplement_single_mitochondria:
  "supplement old [e] [] =
     Inr (if mitochondria_test e
          then \<lparr>silva_taxonomy = header @ silva_row (Mitochondria, 0, e),
                gg_taxonomy = header @ greengenes_row (Mitochondria, 0, e),
                organelle_seqs = fasta_entry (Mitochondria, 0, e)\<rparr>
          else \<lparr>silva_taxonomy = header, gg_taxonomy = header, organelle_seqs = []\<rparr>)"
  by (simp add: supplement_eq retained_def retained_mitochondria_def retained_chloroplast_def)

lemma supplement_single_chloroplast:
  "supplement old [] [e] =
     Inr (if chloroplast_test e
          then \<lparr>silva_taxonomy = header @ silva_row (Chloroplast, 0, e),
                gg_taxonomy = header @ greengenes_row (Chloroplast, 0, e),
                organelle_seqs = fasta_entry (Chloroplast, 0, e)\<rparr>
          else \<lparr>silva_taxonomy = header, gg_taxonomy = header, organelle_seqs = []\<rparr>)"
  by (simp add: supplement_eq retained_def retained_mitochondria_def retained_chloroplast_def)

lemma fasta_entry_not_Nil: "fasta_entry r \<noteq> []"
  by (cases r) (simp add: fasta_entry_def)

lemma supplement_rows:
  "supplement old ms cs =
     Inr \<lparr>silva_taxonomy = (''Feature ID'' @ [tab] @ ''Taxon'' @ [nl])
            @ concat (map (\<lambda>(k, x). (''metaxa2_mitochondria_'' @ str k) @ [tab]
                  @ silva_mitochondria_prefix @ last_segment CHR '';'' (description x) @ [nl])
                (filter (\<lambda>(k, x). mitochondria_test x) (enumerate 0 ms)))
            @ concat (map (\<lambda>(k, x). (''phytoref_chloroplast_'' @ str k) @ [tab]
                  @ silva_chloroplast_prefix @ last_segment CHR ''|'' (description x) @ [nl])
                (filter (\<lambda>(k, x). chloroplast_test x) (enumerate 0 cs))),
          gg_taxonomy = (''Feature ID'' @ [tab] @ ''Taxon'' @ [nl])
            @ concat (map (\<lambda>(k, x). (''metaxa2_mitochondria_'' @ str k) @ [tab]
                  @ greengenes_mitochondria_prefix @ last_segment CHR '';'' (description x) @ [nl])
                (filter (\<lambda>(k, x). mitochondria_test x) (enumerate 0 ms)))
            @ concat (map (\<lambda>(k, x). (''phytoref_chloroplast_'' @ str k) @ [tab]
                  @ greengenes_chloroplast_prefix @ last_segment CHR ''|'' (description x) @ [nl])
                (filter (\<lambda>(k, x). chloroplast_test x) (enumerate 0 cs))),
          organelle_seqs =
            concat (map (\<lambda>(k, x). ''>'' @ (''metaxa2_mitochondria_'' @ str k) @ [nl] @ seq x @ [nl])
                (filter (\<lambda>(k, x). mitochondria_test x) (enumerate 0 ms)))
            @ concat (map (\<lambda>(k, x). ''>'' @ (''phytoref_chloroplast_'' @ str k) @ [nl] @ seq x @ [nl])
                (filter (\<lambda>(k, x). chloroplast_test x) (enumerate 0 cs)))\<rparr>"
  by (simp add: supplement_eq retained_def retained_mitochondria_def retained_chloroplast_def
      header_def silva_row_def greengenes_row_def fasta_entry_def species_field_def
      comp_def case_prod_unfold)

lemma last_segment_if:
  "(if sep \<in> set s then last_segment sep s else s) = last_segment sep s"
  by (simp add: last_segment_no_sep)


section \<open>The claims\<close>

text \<open>
  C1. Every retained record is written under the identifier \<open>metaxa2_mitochondria_i\<close>
  or \<open>phytoref_chloroplast_j\<close>, where \<open>i\<close> (or \<open>j\<close>) is the 0-based position of the record
  among all records of its own input: the run writes exactly the rows and entries of the
  positions \<open>i < length ms\<close> whose record passes the mitochondria test, then those of the
  positions \<open>j < length cs\<close> whose record passes the chloroplast test. Positions of
  dropped records are skipped, and the count starts at 0 for each input.
\<close>

theorem synthetic_id_is_source_position:
  "supplement old ms cs =
     (let rm = map (\<lambda>i. (Mitochondria, i, ms ! i))
                 (filter (\<lambda>i. mitochondria_test (ms ! i)) [0..<length ms]);
          rc = map (\<lambda>j. (Chloroplast, j, cs ! j))
                 (filter (\<lambda>j. chloroplast_test (cs ! j)) [0..<length cs])
      in Inr \<lparr>silva_taxonomy = header @ concat (map silva_row (rm @ rc)),
              gg_taxonomy = header @ concat (map greengenes_row (rm @ rc)),
              organelle_seqs = concat (map fasta_entry (rm @ rc))\<rparr>)
   \<and> feature_id Mitochondria i = ''metaxa2_mitochondria_'' @ str i
   \<and> feature_id Chloroplast j = ''phytoref_chloroplast_'' @ str j"
  by (simp only: supplement_eq retained_def retained_mitochondria_nth retained_chloroplast_nth
      Let_def feature_id.simps simp_thms)

theorem synthetic_id_is_source_position_witness:
  "supplement \<lparr>silva_taxonomy = ''old'', gg_taxonomy = ''old'', organelle_seqs = ''old''\<rparr>
     [\<lparr>description = ''AB1;Bacteria;E. coli'', seq = ''AAAA''\<rparr>,
      \<lparr>description = ''AB2;Eukaryota;Mitochondria;Homo sapiens'', seq = ''ACGT''\<rparr>]
     [\<lparr>description = ''X1|Zea mays'', seq = ''GGCC''\<rparr>] =
   Inr \<lparr>silva_taxonomy =
          ''Feature ID'' @ [tab] @ ''Taxon'' @ [nl]
          @ ''metaxa2_mitochondria_1'' @ [tab] @ silva_mitochondria_prefix @ ''Homo sapiens'' @ [nl]
          @ ''phytoref_chloroplast_0'' @ [tab] @ silva_chloroplast_prefix @ ''Zea mays'' @ [nl],
        gg_taxonomy =
          ''Feature ID'' @ [tab] @ ''Taxon'' @ [nl]
          @ ''metaxa2_mitochondria_1'' @ [tab] @ greengenes_mitochondria_prefix @ ''Homo sapiens'' @ [nl]
          @ ''phytoref_chloroplast_0'' @ [tab] @ greengenes_chloroplast_prefix @ ''Zea mays'' @ [nl],
        organelle_seqs =
          ''>metaxa2_mitochondria_1'' @ [nl] @ ''ACGT'' @ [nl]
          @ ''>phytoref_chloroplast_0'' @ [nl] @ ''GGCC'' @ [nl]\<rparr>"
  using synthetic_id_is_source_position
    [of "\<lparr>silva_taxonomy = ''old'', gg_taxonomy = ''old'', organelle_seqs = ''old''\<rparr>"
        "[\<lparr>description = ''AB1;Bacteria;E. coli'', seq = ''AAAA''\<rparr>,
          \<lparr>description = ''AB2;Eukaryota;Mitochondria;Homo sapiens'', seq = ''ACGT''\<rparr>]"
        "[\<lparr>description = ''X1|Zea mays'', seq = ''GGCC''\<rparr>]" 0 0]
  by (simp add: upt_rec mitochondria_test_def chloroplast_test_def header_def silva_row_def
      greengenes_row_def fasta_entry_def species_field_def last_segment_def str.simps digit_def)

text \<open>
  C2. For every pair of inputs the run succeeds, and each output is made of one piece per
  retained record: the FASTA file is the entries of the retained mitochondria records
  followed by those of the retained chloroplast records; each mapping file is the header
  row \<open>Feature ID<tab>Taxon\<close> followed by the rows of the same records in the same order.
  The retained records of each category are the records of that input that pass the
  test, in source order, so each category has as many rows in each mapping file as it has
  FASTA entries. When no description and no sequence holds a newline (a FASTA parser
  never yields one), the pieces are lines of the files: each mapping file has one line
  per retained record after the header line, and the FASTA file has two.
\<close>

theorem one_row_per_retained_record:
  "supplement old ms cs =
     Inr \<lparr>silva_taxonomy =
            (''Feature ID'' @ [tab] @ ''Taxon'' @ [nl])
            @ concat (map silva_row (retained_mitochondria ms))
            @ concat (map silva_row (retained_chloroplast cs)),
          gg_taxonomy =
            (''Feature ID'' @ [tab] @ ''Taxon'' @ [nl])
            @ concat (map greengenes_row (retained_mitochondria ms))
            @ concat (map greengenes_row (retained_chloroplast cs)),
          organelle_seqs =
            concat (map fasta_entry (retained_mitochondria ms))
            @ concat (map fasta_entry (retained_chloroplast cs))\<rparr>
   \<and> map (snd \<circ> snd) (retained_mitochondria ms) = filter mitochondria_test ms
   \<and> map (snd \<circ> snd) (retained_chloroplast cs) = filter chloroplast_test cs
   \<and> map fst (retained_mitochondria ms) =
       replicate (length (filter mitochondria_test ms)) Mitochondria
   \<and> map fst (retained_chloroplast cs) =
       replicate (length (filter chloroplast_test cs)) Chloroplast
   \<and> length (map fasta_entry (retained_mitochondria ms)) = length (filter mitochondria_test ms)
   \<and> length (map silva_row (retained_mitochondria ms)) = length (filter mitochondria_test ms)
   \<and> length (map greengenes_row (retained_mitochondria ms)) =
       length (filter mitochondria_test ms)
   \<and> length (map fasta_entry (retained_chloroplast cs)) = length (filter chloroplast_test cs)
   \<and> length (map silva_row (retained_chloroplast cs)) = length (filter chloroplast_test cs)
   \<and> length (map greengenes_row (retained_chloroplast cs)) =
       length (filter chloroplast_test cs)
   \<and> ((\<forall>e \<in> set ms \<union> set cs. nl \<notin> set (description e) \<and> nl \<notin> set (seq e)) \<longrightarrow>
       (\<exists>out. supplement old ms cs = Inr out
          \<and> count_list (silva_taxonomy out) nl =
              1 + (length (filter mitochondria_test ms) + length (filter chloroplast_test cs))
          \<and> count_list (gg_taxonomy out) nl =
              1 + (length (filter mitochondria_test ms) + length (filter chloroplast_test cs))
          \<and> count_list (organelle_seqs out) nl =
              2 * (length (filter mitochondria_test ms) + length (filter chloroplast_test cs))))"
proof -
  have run: "supplement old ms cs =
     Inr \<lparr>silva_taxonomy =
            (''Feature ID'' @ [tab] @ ''Taxon'' @ [nl])
            @ concat (map silva_row (retained_mitochondria ms))
            @ concat (map silva_row (retained_chloroplast cs)),
          gg_taxonomy =
            (''Feature ID'' @ [tab] @ ''Taxon'' @ [nl])
            @ concat (map greengenes_row (retained_mitochondria ms))
            @ concat (map greengenes_row (retained_chloroplast cs)),
          organelle_seqs =
            concat (map fasta_entry (retained_mitochondria ms))
            @ concat (map fasta_entry (retained_chloroplast cs))\<rparr>"
    by (simp only: supplement_eq retained_def header_def map_append concat_append)
  have fm: "map fst (retained_mitochondria ms) =
      replicate (length (filter mitochondria_test ms)) Mitochondria"
    by (simp add: retained_mitochondria_def comp_def map_replicate_const
        length_retained_mitochondria [unfolded retained_mitochondria_def, simplified])
  have fc: "map fst (retained_chloroplast cs) =
      replicate (length (filter chloroplast_test cs)) Chloroplast"
    by (simp add: retained_chloroplast_def comp_def map_replicate_const
        length_retained_chloroplast [unfolded retained_chloroplast_def, simplified])
  have lines: "\<exists>out. supplement old ms cs = Inr out
          \<and> count_list (silva_taxonomy out) nl =
              1 + (length (filter mitochondria_test ms) + length (filter chloroplast_test cs))
          \<and> count_list (gg_taxonomy out) nl =
              1 + (length (filter mitochondria_test ms) + length (filter chloroplast_test cs))
          \<and> count_list (organelle_seqs out) nl =
              2 * (length (filter mitochondria_test ms) + length (filter chloroplast_test cs))"
    if "\<forall>e \<in> set ms \<union> set cs. nl \<notin> set (description e) \<and> nl \<notin> set (seq e)"
    using line_counts [OF that] by (simp add: supplement_eq length_retained)
  have parts: "map (snd \<circ> snd) (retained_mitochondria ms) = filter mitochondria_test ms
   \<and> map (snd \<circ> snd) (retained_chloroplast cs) = filter chloroplast_test cs
   \<and> map fst (retained_mitochondria ms) =
       replicate (length (filter mitochondria_test ms)) Mitochondria
   \<and> map fst (retained_chloroplast cs) =
       replicate (length (filter chloroplast_test cs)) Chloroplast
   \<and> length (map fasta_entry (retained_mitochondria ms)) = length (filter mitochondria_test ms)
   \<and> length (map silva_row (retained_mitochondria ms)) = length (filter mitochondria_test ms)
   \<and> length (map greengenes_row (retained_mitochondria ms)) =
       length (filter mitochondria_test ms)
   \<and> length (map fasta_entry (retained_chloroplast cs)) = length (filter chloroplast_test cs)
   \<and> length (map silva_row (retained_chloroplast cs)) = length (filter chloroplast_test cs)
   \<and> length (map greengenes_row (retained_chloroplast cs)) =
       length (filter chloroplast_test cs)"
    by (simp only: fm fc retained_mitochondria_entries retained_chloroplast_entries
        length_map length_retained_mitochondria length_retained_chloroplast simp_thms)
  from run parts lines show ?thesis by blast
qed

theorem one_row_per_retained_record_witness:
  "supplement \<lparr>silva_taxonomy = [], gg_taxonomy = [], organelle_seqs = []\<rparr>
     [\<lparr>description = ''M1;mitochondria;Bos taurus'', seq = ''AAC''\<rparr>,
      \<lparr>description = ''B7;Bacteria;Vibrio'', seq = ''GGG''\<rparr>,
      \<lparr>description = ''M2;Mitochondria;Mus musculus'', seq = ''TTG''\<rparr>]
     [\<lparr>description = ''P1|Pinus'', seq = ''ACXXXXXXXXXXGT''\<rparr>,
      \<lparr>description = ''P2|Zea mays'', seq = ''CCA''\<rparr>] =
   Inr \<lparr>silva_taxonomy =
          ''Feature ID'' @ [tab] @ ''Taxon'' @ [nl]
          @ ''metaxa2_mitochondria_0'' @ [tab] @ silva_mitochondria_prefix @ ''Bos taurus'' @ [nl]
          @ ''metaxa2_mitochondria_2'' @ [tab] @ silva_mitochondria_prefix @ ''Mus musculus'' @ [nl]
          @ ''phytoref_chloroplast_1'' @ [tab] @ silva_chloroplast_prefix @ ''Zea mays'' @ [nl],
        gg_taxonomy =
          ''Feature ID'' @ [tab] @ ''Taxon'' @ [nl]
          @ ''metaxa2_mitochondria_0'' @ [tab] @ greengenes_mitochondria_prefix @ ''Bos taurus'' @ [nl]
          @ ''metaxa2_mitochondria_2'' @ [tab] @ greengenes_mitochondria_prefix @ ''Mus musculus'' @ [nl]
          @ ''phytoref_chloroplast_1'' @ [tab] @ greengenes_chloroplast_prefix @ ''Zea mays'' @ [nl],
        organelle_seqs =
          ''>metaxa2_mitochondria_0'' @ [nl] @ ''AAC'' @ [nl]
          @ ''>metaxa2_mitochondria_2'' @ [nl] @ ''TTG'' @ [nl]
          @ ''>phytoref_chloroplast_1'' @ [nl] @ ''CCA'' @ [nl]\<rparr>
   \<and> (\<exists>out.
        supplement \<lparr>silva_taxonomy = [], gg_taxonomy = [], organelle_seqs = []\<rparr>
          [\<lparr>description = ''M1;mitochondria;Bos taurus'', seq = ''AAC''\<rparr>,
           \<lparr>description = ''B7;Bacteria;Vibrio'', seq = ''GGG''\<rparr>,
           \<lparr>description = ''M2;Mitochondria;Mus musculus'', seq = ''TTG''\<rparr>]
          [\<lparr>description = ''P1|Pinus'', seq = ''ACXXXXXXXXXXGT''\<rparr>,
           \<lparr>description = ''P2|Zea mays'', seq = ''CCA''\<rparr>] = Inr out
        \<and> count_list (silva_taxonomy out) nl = 4
        \<and> count_list (gg_taxonomy out) nl = 4
        \<and> count_list (organelle_seqs out) nl = 6)"
proof -
  let ?old = "\<lparr>silva_taxonomy = [], gg_taxonomy = [], organelle_seqs = []\<rparr>"
  let ?ms = "[\<lparr>description = ''M1;mitochondria;Bos taurus'', seq = ''AAC''\<rparr>,
      \<lparr>description = ''B7;Bacteria;Vibrio'', seq = ''GGG''\<rparr>,
      \<lparr>description = ''M2;Mitochondria;Mus musculus'', seq = ''TTG''\<rparr>]"
  let ?cs = "[\<lparr>description = ''P1|Pinus'', seq = ''ACXXXXXXXXXXGT''\<rparr>,
      \<lparr>description = ''P2|Zea mays'', seq = ''CCA''\<rparr>]"
  note inst = one_row_per_retained_record [of ?old ?ms ?cs]
  have clean: "\<forall>e \<in> set ?ms \<union> set ?cs. nl \<notin> set (description e) \<and> nl \<notin> set (seq e)"
    by simp
  have m: "length (filter mitochondria_test ?ms) = 2"
    by (simp add: mitochondria_test_def)
  have c: "length (filter chloroplast_test ?cs) = 1"
    by (simp add: chloroplast_test_def)
  from inst clean have "\<exists>out. supplement ?old ?ms ?cs = Inr out
          \<and> count_list (silva_taxonomy out) nl =
              1 + (length (filter mitochondria_test ?ms) + length (filter chloroplast_test ?cs))
          \<and> count_list (gg_taxonomy out) nl =
              1 + (length (filter mitochondria_test ?ms) + length (filter chloroplast_test ?cs))
          \<and> count_list (organelle_seqs out) nl =
              2 * (length (filter mitochondria_test ?ms) + length (filter chloroplast_test ?cs))"
    by blast
  then have lines: "\<exists>out. supplement ?old ?ms ?cs = Inr out
        \<and> count_list (silva_taxonomy out) nl = 4
        \<and> count_list (gg_taxonomy out) nl = 4
        \<and> count_list (organelle_seqs out) nl = 6"
    by (simp only: m c) simp
  from inst have "supplement ?old ?ms ?cs =
     Inr \<lparr>silva_taxonomy =
            (''Feature ID'' @ [tab] @ ''Taxon'' @ [nl])
            @ concat (map silva_row (retained_mitochondria ?ms))
            @ concat (map silva_row (retained_chloroplast ?cs)),
          gg_taxonomy =
            (''Feature ID'' @ [tab] @ ''Taxon'' @ [nl])
            @ concat (map greengenes_row (retained_mitochondria ?ms))
            @ concat (map greengenes_row (retained_chloroplast ?cs)),
          organelle_seqs =
            concat (map fasta_entry (retained_mitochondria ?ms))
            @ concat (map fasta_entry (retained_chloroplast ?cs))\<rparr>"
    by (rule conjunct1)
  then have run: "supplement ?old ?ms ?cs =
   Inr \<lparr>silva_taxonomy =
          ''Feature ID'' @ [tab] @ ''Taxon'' @ [nl]
          @ ''metaxa2_mitochondria_0'' @ [tab] @ silva_mitochondria_prefix @ ''Bos taurus'' @ [nl]
          @ ''metaxa2_mitochondria_2'' @ [tab] @ silva_mitochondria_prefix @ ''Mus musculus'' @ [nl]
          @ ''phytoref_chloroplast_1'' @ [tab] @ silva_chloroplast_prefix @ ''Zea mays'' @ [nl],
        gg_taxonomy =
          ''Feature ID'' @ [tab] @ ''Taxon'' @ [nl]
          @ ''metaxa2_mitochondria_0'' @ [tab] @ greengenes_mitochondria_prefix @ ''Bos taurus'' @ [nl]
          @ ''metaxa2_mitochondria_2'' @ [tab] @ greengenes_mitochondria_prefix @ ''Mus musculus'' @ [nl]
          @ ''phytoref_chloroplast_1'' @ [tab] @ greengenes_chloroplast_prefix @ ''Zea mays'' @ [nl],
        organelle_seqs =
          ''>metaxa2_mitochondria_0'' @ [nl] @ ''AAC'' @ [nl]
          @ ''>metaxa2_mitochondria_2'' @ [nl] @ ''TTG'' @ [nl]
          @ ''>phytoref_chloroplast_1'' @ [nl] @ ''CCA'' @ [nl]\<rparr>"
    by (simp add: retained_mitochondria_def retained_chloroplast_def mitochondria_test_def
      chloroplast_test_def silva_row_def greengenes_row_def fasta_entry_def species_field_def
      last_segment_def str.simps digit_def)
  from run lines show ?thesis by (rule conjI)
qed

text \<open>
  C3. A run writes to its three files exactly the records of the mitochondria input
  whose description contains \<open>mitochondria\<close> or \<open>Mitochondria\<close> as a contiguous
  substring, each at its position in the input, followed by the retained chloroplast
  records; the other mitochondria records appear in none of the three files, and the run
  ends without an error. A run on a single record writes that record when its description
  contains one of the two words, and leaves the header rows and an empty FASTA file when
  it contains neither. The same holds of one pass of the loop body, and the loop over
  the whole input equals the loop over the matching records alone.
\<close>

theorem mitochondria_retained_iff:
  "(mitochondria_body (i, e) f = Inr (append_records [(Mitochondria, i, e)] f)) =
     ((\<exists>ps ss. description e = ps @ ''mitochondria'' @ ss) \<or>
      (\<exists>ps ss. description e = ps @ ''Mitochondria'' @ ss))
   \<and> (mitochondria_body (i, e) f = Inr f) =
     (\<not> ((\<exists>ps ss. description e = ps @ ''mitochondria'' @ ss) \<or>
          (\<exists>ps ss. description e = ps @ ''Mitochondria'' @ ss)))
   \<and> for_each mitochondria_body (enumerate 0 ms) f =
       for_each mitochondria_body
         (filter (\<lambda>(i, e). py_in ''mitochondria'' (description e) \<or>
                            py_in ''Mitochondria'' (description e)) (enumerate 0 ms)) f
   \<and> (\<exists>out. supplement old ms cs = Inr out)
   \<and> supplement old ms cs =
       (let kept = map (\<lambda>k. (Mitochondria, k, ms ! k))
                     (filter (\<lambda>k. (\<exists>ps ss. description (ms ! k) = ps @ ''mitochondria'' @ ss) \<or>
                                   (\<exists>ps ss. description (ms ! k) = ps @ ''Mitochondria'' @ ss))
                        [0..<length ms])
        in Inr \<lparr>silva_taxonomy = header @ concat (map silva_row kept)
                   @ concat (map silva_row (retained_chloroplast cs)),
                gg_taxonomy = header @ concat (map greengenes_row kept)
                   @ concat (map greengenes_row (retained_chloroplast cs)),
                organelle_seqs = concat (map fasta_entry kept)
                   @ concat (map fasta_entry (retained_chloroplast cs))\<rparr>)
   \<and> (supplement old [e] [] =
        Inr \<lparr>silva_taxonomy = header @ silva_row (Mitochondria, 0, e),
             gg_taxonomy = header @ greengenes_row (Mitochondria, 0, e),
             organelle_seqs = fasta_entry (Mitochondria, 0, e)\<rparr>) =
     ((\<exists>ps ss. description e = ps @ ''mitochondria'' @ ss) \<or>
      (\<exists>ps ss. description e = ps @ ''Mitochondria'' @ ss))
   \<and> (supplement old [e] [] =
        Inr \<lparr>silva_taxonomy = header, gg_taxonomy = header, organelle_seqs = []\<rparr>) =
     (\<not> ((\<exists>ps ss. description e = ps @ ''mitochondria'' @ ss) \<or>
          (\<exists>ps ss. description e = ps @ ''Mitochondria'' @ ss)))"
proof -
  have t: "mitochondria_test x =
     ((\<exists>ps ss. description x = ps @ ''mitochondria'' @ ss) \<or>
      (\<exists>ps ss. description x = ps @ ''Mitochondria'' @ ss))" for x
    by (simp only: mitochondria_test_def py_in_iff)
  have a: "(mitochondria_body (i, e) f = Inr (append_records [(Mitochondria, i, e)] f)) =
      mitochondria_test e"
    using append_records_neq [of "(Mitochondria, i, e)" f]
    by (auto simp: mitochondria_body_eq)
  have b: "(mitochondria_body (i, e) f = Inr f) = (\<not> mitochondria_test e)"
    using append_records_neq [of "(Mitochondria, i, e)" f]
    by (auto simp: mitochondria_body_eq)
  have c: "for_each mitochondria_body (enumerate 0 ms) f =
       for_each mitochondria_body
         (filter (\<lambda>(i, e). py_in ''mitochondria'' (description e) \<or>
                            py_in ''Mitochondria'' (description e)) (enumerate 0 ms)) f"
    using for_each_filter_mitochondria [of "enumerate 0 ms" f]
    by (simp only: mitochondria_test_def)
  have d: "\<exists>out. supplement old ms cs = Inr out"
    by (simp only: supplement_eq) blast
  have run: "supplement old ms cs =
       (let kept = map (\<lambda>k. (Mitochondria, k, ms ! k))
                     (filter (\<lambda>k. mitochondria_test (ms ! k)) [0..<length ms])
        in Inr \<lparr>silva_taxonomy = header @ concat (map silva_row kept)
                   @ concat (map silva_row (retained_chloroplast cs)),
                gg_taxonomy = header @ concat (map greengenes_row kept)
                   @ concat (map greengenes_row (retained_chloroplast cs)),
                organelle_seqs = concat (map fasta_entry kept)
                   @ concat (map fasta_entry (retained_chloroplast cs))\<rparr>)"
    by (simp only: supplement_eq retained_def retained_mitochondria_nth Let_def map_append
        concat_append)
  have one: "(supplement old [e] [] =
        Inr \<lparr>silva_taxonomy = header @ silva_row (Mitochondria, 0, e),
             gg_taxonomy = header @ greengenes_row (Mitochondria, 0, e),
             organelle_seqs = fasta_entry (Mitochondria, 0, e)\<rparr>) = mitochondria_test e"
    using fasta_entry_not_Nil [of "(Mitochondria, 0, e)"]
    by (auto simp: supplement_single_mitochondria)
  have none: "(supplement old [e] [] =
        Inr \<lparr>silva_taxonomy = header, gg_taxonomy = header, organelle_seqs = []\<rparr>) =
      (\<not> mitochondria_test e)"
    using fasta_entry_not_Nil [of "(Mitochondria, 0, e)"]
    by (auto simp: supplement_single_mitochondria)
  show ?thesis
    using a b c d run one none unfolding t by blast
qed

theorem mitochondria_retained_iff_witness:
  "mitochondria_body (4, \<lparr>description = ''M2;Mitochondria;Mus musculus'', seq = ''TTG''\<rparr>)
       \<lparr>silva_taxonomy = ''s'', gg_taxonomy = ''g'', organelle_seqs = ''o''\<rparr> =
     Inr (append_records
       [(Mitochondria, 4, \<lparr>description = ''M2;Mitochondria;Mus musculus'', seq = ''TTG''\<rparr>)]
       \<lparr>silva_taxonomy = ''s'', gg_taxonomy = ''g'', organelle_seqs = ''o''\<rparr>)
   \<and> mitochondria_body (4, \<lparr>description = ''B7;Bacteria;MITOCHONDRIA'', seq = ''GGG''\<rparr>)
       \<lparr>silva_taxonomy = ''s'', gg_taxonomy = ''g'', organelle_seqs = ''o''\<rparr> =
     Inr \<lparr>silva_taxonomy = ''s'', gg_taxonomy = ''g'', organelle_seqs = ''o''\<rparr>
   \<and> supplement \<lparr>silva_taxonomy = ''s'', gg_taxonomy = ''g'', organelle_seqs = ''o''\<rparr>
       [\<lparr>description = ''B7;Bacteria;MITOCHONDRIA'', seq = ''GGG''\<rparr>,
        \<lparr>description = ''M2;Mitochondria;Mus musculus'', seq = ''TTG''\<rparr>] [] =
     Inr \<lparr>silva_taxonomy = ''Feature ID'' @ [tab] @ ''Taxon'' @ [nl]
            @ ''metaxa2_mitochondria_1'' @ [tab] @ silva_mitochondria_prefix @ ''Mus musculus'' @ [nl],
          gg_taxonomy = ''Feature ID'' @ [tab] @ ''Taxon'' @ [nl]
            @ ''metaxa2_mitochondria_1'' @ [tab] @ greengenes_mitochondria_prefix @ ''Mus musculus'' @ [nl],
          organelle_seqs = ''>metaxa2_mitochondria_1'' @ [nl] @ ''TTG'' @ [nl]\<rparr>
   \<and> supplement \<lparr>silva_taxonomy = ''s'', gg_taxonomy = ''g'', organelle_seqs = ''o''\<rparr>
       [\<lparr>description = ''B7;Bacteria;MITOCHONDRIA'', seq = ''GGG''\<rparr>] [] =
     Inr \<lparr>silva_taxonomy = ''Feature ID'' @ [tab] @ ''Taxon'' @ [nl],
          gg_taxonomy = ''Feature ID'' @ [tab] @ ''Taxon'' @ [nl],
          organelle_seqs = []\<rparr>"
proof -
  let ?m = "\<lparr>description = ''M2;Mitochondria;Mus musculus'', seq = ''TTG''\<rparr>"
  let ?b = "\<lparr>description = ''B7;Bacteria;MITOCHONDRIA'', seq = ''GGG''\<rparr>"
  let ?f = "\<lparr>silva_taxonomy = ''s'', gg_taxonomy = ''g'', organelle_seqs = ''o''\<rparr>"
  note kept = mitochondria_retained_iff [where i = 4 and e = ?m and f = ?f and old = ?f
      and ms = "[?b, ?m]" and cs = "[]"]
  note dropped = mitochondria_retained_iff [where i = 4 and e = ?b and f = ?f and old = ?f
      and ms = "[?b, ?m]" and cs = "[]"]
  have yes: "(\<exists>ps ss. ''M2;Mitochondria;Mus musculus'' = ps @ ''mitochondria'' @ ss) \<or>
      (\<exists>ps ss. ''M2;Mitochondria;Mus musculus'' = ps @ ''Mitochondria'' @ ss)"
    by (simp only: py_in_iff [symmetric]) simp
  have no: "\<not> ((\<exists>ps ss. ''B7;Bacteria;MITOCHONDRIA'' = ps @ ''mitochondria'' @ ss) \<or>
      (\<exists>ps ss. ''B7;Bacteria;MITOCHONDRIA'' = ps @ ''Mitochondria'' @ ss))"
    by (simp only: py_in_iff [symmetric]) simp
  have body_kept: "mitochondria_body (4, ?m) ?f = Inr (append_records [(Mitochondria, 4, ?m)] ?f)"
    using kept [THEN conjunct1] yes by simp
  have body_dropped: "mitochondria_body (4, ?b) ?f = Inr ?f"
    using dropped [THEN conjunct2, THEN conjunct1] no by simp
  have run: "supplement ?f [?b, ?m] [] =
     Inr \<lparr>silva_taxonomy = ''Feature ID'' @ [tab] @ ''Taxon'' @ [nl]
            @ ''metaxa2_mitochondria_1'' @ [tab] @ silva_mitochondria_prefix @ ''Mus musculus'' @ [nl],
          gg_taxonomy = ''Feature ID'' @ [tab] @ ''Taxon'' @ [nl]
            @ ''metaxa2_mitochondria_1'' @ [tab] @ greengenes_mitochondria_prefix @ ''Mus musculus'' @ [nl],
          organelle_seqs = ''>metaxa2_mitochondria_1'' @ [nl] @ ''TTG'' @ [nl]\<rparr>"
    using kept [THEN conjunct2, THEN conjunct2, THEN conjunct2, THEN conjunct2, THEN conjunct1]
    by (simp only: py_in_iff [symmetric])
      (simp add: Let_def upt_rec header_def silva_row_def greengenes_row_def fasta_entry_def
        species_field_def last_segment_def retained_mitochondria_def retained_chloroplast_def
        mitochondria_test_def chloroplast_test_def str.simps digit_def)
  have single: "supplement ?f [?b] [] =
     Inr \<lparr>silva_taxonomy = ''Feature ID'' @ [tab] @ ''Taxon'' @ [nl],
          gg_taxonomy = ''Feature ID'' @ [tab] @ ''Taxon'' @ [nl],
          organelle_seqs = []\<rparr>"
    using dropped [THEN conjunct2, THEN conjunct2, THEN conjunct2, THEN conjunct2,
        THEN conjunct2, THEN conjunct2] no
    by (simp add: header_def)
  from body_kept body_dropped run single show ?thesis by (intro conjI)
qed

text \<open>
  C4. A run writes to its three files, after the retained mitochondria records, exactly
  the records of the chloroplast input whose sequence does not contain \<open>XXXXXXXXXX\<close> as
  a contiguous substring, each at its position in the input; a record whose sequence
  contains it appears in none of the three files. A run on a single record writes that
  record when its sequence is free of the substring, and leaves the header rows and an
  empty FASTA file when it is not. The same holds of one pass of the loop body, and the
  loop over the whole input equals the loop over the records without the substring.
\<close>

theorem chloroplast_retained_iff:
  "(chloroplast_body (j, e) f = Inr (append_records [(Chloroplast, j, e)] f)) =
     (\<not> (\<exists>ps ss. seq e = ps @ ''XXXXXXXXXX'' @ ss))
   \<and> (chloroplast_body (j, e) f = Inr f) = (\<exists>ps ss. seq e = ps @ ''XXXXXXXXXX'' @ ss)
   \<and> for_each chloroplast_body (enumerate 0 cs) f =
       for_each chloroplast_body
         (filter (\<lambda>(j, e). \<not> py_in ''XXXXXXXXXX'' (seq e)) (enumerate 0 cs)) f
   \<and> supplement old ms cs =
       (let kept = map (\<lambda>k. (Chloroplast, k, cs ! k))
                     (filter (\<lambda>k. \<not> (\<exists>ps ss. seq (cs ! k) = ps @ ''XXXXXXXXXX'' @ ss))
                        [0..<length cs])
        in Inr \<lparr>silva_taxonomy = header @ concat (map silva_row (retained_mitochondria ms))
                   @ concat (map silva_row kept),
                gg_taxonomy = header @ concat (map greengenes_row (retained_mitochondria ms))
                   @ concat (map greengenes_row kept),
                organelle_seqs = concat (map fasta_entry (retained_mitochondria ms))
                   @ concat (map fasta_entry kept)\<rparr>)
   \<and> (supplement old [] [e] =
        Inr \<lparr>silva_taxonomy = header @ silva_row (Chloroplast, 0, e),
             gg_taxonomy = header @ greengenes_row (Chloroplast, 0, e),
             organelle_seqs = fasta_entry (Chloroplast, 0, e)\<rparr>) =
     (\<not> (\<exists>ps ss. seq e = ps @ ''XXXXXXXXXX'' @ ss))
   \<and> (supplement old [] [e] =
        Inr \<lparr>silva_taxonomy = header, gg_taxonomy = header, organelle_seqs = []\<rparr>) =
     (\<exists>ps ss. seq e = ps @ ''XXXXXXXXXX'' @ ss)"
proof -
  have t: "chloroplast_test x = (\<not> (\<exists>ps ss. seq x = ps @ ''XXXXXXXXXX'' @ ss))" for x
    by (simp only: chloroplast_test_def py_in_iff)
  have a: "(chloroplast_body (j, e) f = Inr (append_records [(Chloroplast, j, e)] f)) =
      chloroplast_test e"
    using append_records_neq [of "(Chloroplast, j, e)" f]
    by (auto simp: chloroplast_body_eq)
  have b: "(chloroplast_body (j, e) f = Inr f) = (\<not> chloroplast_test e)"
    using append_records_neq [of "(Chloroplast, j, e)" f]
    by (auto simp: chloroplast_body_eq)
  have c: "for_each chloroplast_body (enumerate 0 cs) f =
       for_each chloroplast_body
         (filter (\<lambda>(j, e). \<not> py_in ''XXXXXXXXXX'' (seq e)) (enumerate 0 cs)) f"
    using for_each_filter_chloroplast [of "enumerate 0 cs" f]
    by (simp only: chloroplast_test_def)
  have run: "supplement old ms cs =
       (let kept = map (\<lambda>k. (Chloroplast, k, cs ! k))
                     (filter (\<lambda>k. chloroplast_test (cs ! k)) [0..<length cs])
        in Inr \<lparr>silva_taxonomy = header @ concat (map silva_row (retained_mitochondria ms))
                   @ concat (map silva_row kept),
                gg_taxonomy = header @ concat (map greengenes_row (retained_mitochondria ms))
                   @ concat (map greengenes_row kept),
                organelle_seqs = concat (map fasta_entry (retained_mitochondria ms))
                   @ concat (map fasta_entry kept)\<rparr>)"
    by (simp only: supplement_eq retained_def retained_chloroplast_nth Let_def map_append
        concat_append)
  have one: "(supplement old [] [e] =
        Inr \<lparr>silva_taxonomy = header @ silva_row (Chloroplast, 0, e),
             gg_taxonomy = header @ greengenes_row (Chloroplast, 0, e),
             organelle_seqs = fasta_entry (Chloroplast, 0, e)\<rparr>) = chloroplast_test e"
    using fasta_entry_not_Nil [of "(Chloroplast, 0, e)"]
    by (auto simp: supplement_single_chloroplast)
  have none: "(supplement old [] [e] =
        Inr \<lparr>silva_taxonomy = header, gg_taxonomy = header, organelle_seqs = []\<rparr>) =
      (\<not> chloroplast_test e)"
    using fasta_entry_not_Nil [of "(Chloroplast, 0, e)"]
    by (auto simp: supplement_single_chloroplast)
  show ?thesis
    using a b c run one none unfolding t by blast
qed

theorem chloroplast_retained_iff_witness:
  "chloroplast_body (0, \<lparr>description = ''P1|Pinus'', seq = ''ACGTXXXXXXXXXXACGT''\<rparr>)
       \<lparr>silva_taxonomy = ''s'', gg_taxonomy = ''g'', organelle_seqs = ''o''\<rparr> =
     Inr \<lparr>silva_taxonomy = ''s'', gg_taxonomy = ''g'', organelle_seqs = ''o''\<rparr>
   \<and> chloroplast_body (1, \<lparr>description = ''P2|Zea mays'', seq = ''ACGTXXXXXXXXXACGT''\<rparr>)
       \<lparr>silva_taxonomy = ''s'', gg_taxonomy = ''g'', organelle_seqs = ''o''\<rparr> =
     Inr (append_records
       [(Chloroplast, 1, \<lparr>description = ''P2|Zea mays'', seq = ''ACGTXXXXXXXXXACGT''\<rparr>)]
       \<lparr>silva_taxonomy = ''s'', gg_taxonomy = ''g'', organelle_seqs = ''o''\<rparr>)
   \<and> supplement \<lparr>silva_taxonomy = ''s'', gg_taxonomy = ''g'', organelle_seqs = ''o''\<rparr> []
       [\<lparr>description = ''P1|Pinus'', seq = ''ACGTXXXXXXXXXXACGT''\<rparr>,
        \<lparr>description = ''P2|Zea mays'', seq = ''ACGTXXXXXXXXXACGT''\<rparr>] =
     Inr \<lparr>silva_taxonomy = ''Feature ID'' @ [tab] @ ''Taxon'' @ [nl]
            @ ''phytoref_chloroplast_1'' @ [tab] @ silva_chloroplast_prefix @ ''Zea mays'' @ [nl],
          gg_taxonomy = ''Feature ID'' @ [tab] @ ''Taxon'' @ [nl]
            @ ''phytoref_chloroplast_1'' @ [tab] @ greengenes_chloroplast_prefix @ ''Zea mays'' @ [nl],
          organelle_seqs = ''>phytoref_chloroplast_1'' @ [nl] @ ''ACGTXXXXXXXXXACGT'' @ [nl]\<rparr>
   \<and> supplement \<lparr>silva_taxonomy = ''s'', gg_taxonomy = ''g'', organelle_seqs = ''o''\<rparr> []
       [\<lparr>description = ''P1|Pinus'', seq = ''ACGTXXXXXXXXXXACGT''\<rparr>] =
     Inr \<lparr>silva_taxonomy = ''Feature ID'' @ [tab] @ ''Taxon'' @ [nl],
          gg_taxonomy = ''Feature ID'' @ [tab] @ ''Taxon'' @ [nl],
          organelle_seqs = []\<rparr>"
proof -
  let ?x = "\<lparr>description = ''P1|Pinus'', seq = ''ACGTXXXXXXXXXXACGT''\<rparr>"
  let ?y = "\<lparr>description = ''P2|Zea mays'', seq = ''ACGTXXXXXXXXXACGT''\<rparr>"
  let ?f = "\<lparr>silva_taxonomy = ''s'', gg_taxonomy = ''g'', organelle_seqs = ''o''\<rparr>"
  note dropped = chloroplast_retained_iff [where j = 0 and e = ?x and f = ?f and old = ?f
      and ms = "[]" and cs = "[?x, ?y]"]
  note kept = chloroplast_retained_iff [where j = 1 and e = ?y and f = ?f and old = ?f
      and ms = "[]" and cs = "[?x, ?y]"]
  have yes: "\<exists>ps ss. ''ACGTXXXXXXXXXXACGT'' = ps @ ''XXXXXXXXXX'' @ ss"
    by (simp only: py_in_iff [symmetric]) simp
  have no: "\<not> (\<exists>ps ss. ''ACGTXXXXXXXXXACGT'' = ps @ ''XXXXXXXXXX'' @ ss)"
    by (simp only: py_in_iff [symmetric]) simp
  have body_dropped: "chloroplast_body (0, ?x) ?f = Inr ?f"
    using dropped [THEN conjunct2, THEN conjunct1] yes by simp
  have body_kept: "chloroplast_body (1, ?y) ?f = Inr (append_records [(Chloroplast, 1, ?y)] ?f)"
    using kept [THEN conjunct1] no by simp
  have run: "supplement ?f [] [?x, ?y] =
     Inr \<lparr>silva_taxonomy = ''Feature ID'' @ [tab] @ ''Taxon'' @ [nl]
            @ ''phytoref_chloroplast_1'' @ [tab] @ silva_chloroplast_prefix @ ''Zea mays'' @ [nl],
          gg_taxonomy = ''Feature ID'' @ [tab] @ ''Taxon'' @ [nl]
            @ ''phytoref_chloroplast_1'' @ [tab] @ greengenes_chloroplast_prefix @ ''Zea mays'' @ [nl],
          organelle_seqs = ''>phytoref_chloroplast_1'' @ [nl] @ ''ACGTXXXXXXXXXACGT'' @ [nl]\<rparr>"
    using kept [THEN conjunct2, THEN conjunct2, THEN conjunct2, THEN conjunct1]
    by (simp only: py_in_iff [symmetric])
      (simp add: Let_def upt_rec header_def silva_row_def greengenes_row_def fasta_entry_def
        species_field_def last_segment_def retained_mitochondria_def retained_chloroplast_def
        mitochondria_test_def chloroplast_test_def str.simps digit_def)
  have single: "supplement ?f [] [?x] =
     Inr \<lparr>silva_taxonomy = ''Feature ID'' @ [tab] @ ''Taxon'' @ [nl],
          gg_taxonomy = ''Feature ID'' @ [tab] @ ''Taxon'' @ [nl],
          organelle_seqs = []\<rparr>"
    using dropped [THEN conjunct2, THEN conjunct2, THEN conjunct2, THEN conjunct2,
        THEN conjunct2] yes
    by (simp add: header_def)
  from body_dropped body_kept run single show ?thesis by (intro conjI)
qed

text \<open>
  C5. \<open>split(sep)[-1]\<close> never raises and returns the last segment of the description: the
  suffix that follows the last separator (the whole description when there is none),
  unchanged and free of separators. The data rows a run writes to each mapping file are,
  for each retained record in turn, the synthetic identifier, a tab, the prefix of that
  convention, the last segment of the description and a newline; the separator is \<open>;\<close>
  for mitochondria and \<open>|\<close> for chloroplast records. One pass of the loop body appends
  exactly such a row to each mapping file.
\<close>

theorem species_field_and_row_format:
  "index_last (split sep d) = Inr (last_segment sep d)
   \<and> sep \<notin> set (last_segment sep d)
   \<and> (d = last_segment sep d \<or> (\<exists>p. d = p @ sep # last_segment sep d))
   \<and> (mitochondria_test e \<longrightarrow>
        mitochondria_body (i, e) f =
          Inr (f\<lparr>silva_taxonomy := silva_taxonomy f @ (''metaxa2_mitochondria_'' @ str i) @ [tab]
                     @ silva_mitochondria_prefix @ last_segment CHR '';'' (description e) @ [nl],
                   gg_taxonomy := gg_taxonomy f @ (''metaxa2_mitochondria_'' @ str i) @ [tab]
                     @ greengenes_mitochondria_prefix @ last_segment CHR '';'' (description e) @ [nl],
                   organelle_seqs := organelle_seqs f @ ''>'' @ (''metaxa2_mitochondria_'' @ str i) @ [nl]
                     @ seq e @ [nl]\<rparr>))
   \<and> (chloroplast_test e \<longrightarrow>
        chloroplast_body (i, e) f =
          Inr (f\<lparr>silva_taxonomy := silva_taxonomy f @ (''phytoref_chloroplast_'' @ str i) @ [tab]
                     @ silva_chloroplast_prefix @ last_segment CHR ''|'' (description e) @ [nl],
                   gg_taxonomy := gg_taxonomy f @ (''phytoref_chloroplast_'' @ str i) @ [tab]
                     @ greengenes_chloroplast_prefix @ last_segment CHR ''|'' (description e) @ [nl],
                   organelle_seqs := organelle_seqs f @ ''>'' @ (''phytoref_chloroplast_'' @ str i) @ [nl]
                     @ seq e @ [nl]\<rparr>))
   \<and> supplement old ms cs =
     Inr \<lparr>silva_taxonomy = (''Feature ID'' @ [tab] @ ''Taxon'' @ [nl])
            @ concat (map (\<lambda>(k, x). (''metaxa2_mitochondria_'' @ str k) @ [tab]
                  @ silva_mitochondria_prefix @ last_segment CHR '';'' (description x) @ [nl])
                (filter (\<lambda>(k, x). mitochondria_test x) (enumerate 0 ms)))
            @ concat (map (\<lambda>(k, x). (''phytoref_chloroplast_'' @ str k) @ [tab]
                  @ silva_chloroplast_prefix @ last_segment CHR ''|'' (description x) @ [nl])
                (filter (\<lambda>(k, x). chloroplast_test x) (enumerate 0 cs))),
          gg_taxonomy = (''Feature ID'' @ [tab] @ ''Taxon'' @ [nl])
            @ concat (map (\<lambda>(k, x). (''metaxa2_mitochondria_'' @ str k) @ [tab]
                  @ greengenes_mitochondria_prefix @ last_segment CHR '';'' (description x) @ [nl])
                (filter (\<lambda>(k, x). mitochondria_test x) (enumerate 0 ms)))
            @ concat (map (\<lambda>(k, x). (''phytoref_chloroplast_'' @ str k) @ [tab]
                  @ greengenes_chloroplast_prefix @ last_segment CHR ''|'' (description x) @ [nl])
                (filter (\<lambda>(k, x). chloroplast_test x) (enumerate 0 cs))),
          organelle_seqs =
            concat (map (\<lambda>(k, x). ''>'' @ (''metaxa2_mitochondria_'' @ str k) @ [nl] @ seq x @ [nl])
                (filter (\<lambda>(k, x). mitochondria_test x) (enumerate 0 ms)))
            @ concat (map (\<lambda>(k, x). ''>'' @ (''phytoref_chloroplast_'' @ str k) @ [nl] @ seq x @ [nl])
                (filter (\<lambda>(k, x). chloroplast_test x) (enumerate 0 cs)))\<rparr>"
proof -
  have m: "mitochondria_test e \<longrightarrow>
        mitochondria_body (i, e) f =
          Inr (f\<lparr>silva_taxonomy := silva_taxonomy f @ (''metaxa2_mitochondria_'' @ str i) @ [tab]
                     @ silva_mitochondria_prefix @ last_segment CHR '';'' (description e) @ [nl],
                   gg_taxonomy := gg_taxonomy f @ (''metaxa2_mitochondria_'' @ str i) @ [tab]
                     @ greengenes_mitochondria_prefix @ last_segment CHR '';'' (description e) @ [nl],
                   organelle_seqs := organelle_seqs f @ ''>'' @ (''metaxa2_mitochondria_'' @ str i) @ [nl]
                     @ seq e @ [nl]\<rparr>)"
    by (simp add: mitochondria_body_def index_last_split Let_def)
  have c: "chloroplast_test e \<longrightarrow>
        chloroplast_body (i, e) f =
          Inr (f\<lparr>silva_taxonomy := silva_taxonomy f @ (''phytoref_chloroplast_'' @ str i) @ [tab]
                     @ silva_chloroplast_prefix @ last_segment CHR ''|'' (description e) @ [nl],
                   gg_taxonomy := gg_taxonomy f @ (''phytoref_chloroplast_'' @ str i) @ [tab]
                     @ greengenes_chloroplast_prefix @ last_segment CHR ''|'' (description e) @ [nl],
                   organelle_seqs := organelle_seqs f @ ''>'' @ (''phytoref_chloroplast_'' @ str i) @ [nl]
                     @ seq e @ [nl]\<rparr>)"
    by (simp add: chloroplast_body_def index_last_split Let_def)
  show ?thesis
    using index_last_split [of sep d] last_segment_suffix [of sep d] m c
      supplement_rows [of old ms cs]
    by blast
qed

theorem species_field_and_row_format_witness:
  "index_last (split CHR '';'' ''A1;Mitochondria; Homo sapiens '') = Inr '' Homo sapiens ''
   \<and> mitochondria_body (12, \<lparr>description = ''A1|x;Mitochondria; Homo sapiens '', seq = ''ACGT''\<rparr>)
       \<lparr>silva_taxonomy = ''s'', gg_taxonomy = ''g'', organelle_seqs = ''o''\<rparr> =
     Inr \<lparr>silva_taxonomy = ''s'' @ ''metaxa2_mitochondria_12'' @ [tab]
            @ silva_mitochondria_prefix @ '' Homo sapiens '' @ [nl],
          gg_taxonomy = ''g'' @ ''metaxa2_mitochondria_12'' @ [tab]
            @ greengenes_mitochondria_prefix @ '' Homo sapiens '' @ [nl],
          organelle_seqs = ''o'' @ ''>metaxa2_mitochondria_12'' @ [nl] @ ''ACGT'' @ [nl]\<rparr>
   \<and> chloroplast_body (12, \<lparr>description = ''A1|x;Mitochondria; Homo sapiens '', seq = ''ACGT''\<rparr>)
       \<lparr>silva_taxonomy = ''s'', gg_taxonomy = ''g'', organelle_seqs = ''o''\<rparr> =
     Inr \<lparr>silva_taxonomy = ''s'' @ ''phytoref_chloroplast_12'' @ [tab]
            @ silva_chloroplast_prefix @ ''x;Mitochondria; Homo sapiens '' @ [nl],
          gg_taxonomy = ''g'' @ ''phytoref_chloroplast_12'' @ [tab]
            @ greengenes_chloroplast_prefix @ ''x;Mitochondria; Homo sapiens '' @ [nl],
          organelle_seqs = ''o'' @ ''>phytoref_chloroplast_12'' @ [nl] @ ''ACGT'' @ [nl]\<rparr>
   \<and> supplement \<lparr>silva_taxonomy = ''s'', gg_taxonomy = ''g'', organelle_seqs = ''o''\<rparr>
       [\<lparr>description = ''A1|x;Mitochondria; Homo sapiens '', seq = ''ACGT''\<rparr>]
       [\<lparr>description = ''A1|x;Mitochondria; Homo sapiens '', seq = ''ACGT''\<rparr>] =
     Inr \<lparr>silva_taxonomy = ''Feature ID'' @ [tab] @ ''Taxon'' @ [nl]
            @ ''metaxa2_mitochondria_0'' @ [tab] @ silva_mitochondria_prefix @ '' Homo sapiens '' @ [nl]
            @ ''phytoref_chloroplast_0'' @ [tab] @ silva_chloroplast_prefix @ ''x;Mitochondria; Homo sapiens '' @ [nl],
          gg_taxonomy = ''Feature ID'' @ [tab] @ ''Taxon'' @ [nl]
            @ ''metaxa2_mitochondria_0'' @ [tab] @ greengenes_mitochondria_prefix @ '' Homo sapiens '' @ [nl]
            @ ''phytoref_chloroplast_0'' @ [tab] @ greengenes_chloroplast_prefix @ ''x;Mitochondria; Homo sapiens '' @ [nl],
          organelle_seqs = ''>metaxa2_mitochondria_0'' @ [nl] @ ''ACGT'' @ [nl]
            @ ''>phytoref_chloroplast_0'' @ [nl] @ ''ACGT'' @ [nl]\<rparr>"
proof -
  let ?e = "\<lparr>description = ''A1|x;Mitochondria; Homo sapiens '', seq = ''ACGT''\<rparr>"
  let ?f = "\<lparr>silva_taxonomy = ''s'', gg_taxonomy = ''g'', organelle_seqs = ''o''\<rparr>"
  note inst = species_field_and_row_format [where sep = "CHR '';''"
      and d = "''A1;Mitochondria; Homo sapiens ''" and i = 12 and e = ?e and f = ?f
      and old = ?f and ms = "[?e]" and cs = "[?e]"]
  have m: "mitochondria_test ?e"
    by (simp add: mitochondria_test_def)
  have c: "chloroplast_test ?e"
    by (simp add: chloroplast_test_def)
  have sp: "index_last (split CHR '';'' ''A1;Mitochondria; Homo sapiens '') = Inr '' Homo sapiens ''"
    using inst [THEN conjunct1] by (simp add: last_segment_def)
  have bm: "mitochondria_body (12, ?e) ?f =
     Inr \<lparr>silva_taxonomy = ''s'' @ ''metaxa2_mitochondria_12'' @ [tab]
            @ silva_mitochondria_prefix @ '' Homo sapiens '' @ [nl],
          gg_taxonomy = ''g'' @ ''metaxa2_mitochondria_12'' @ [tab]
            @ greengenes_mitochondria_prefix @ '' Homo sapiens '' @ [nl],
          organelle_seqs = ''o'' @ ''>metaxa2_mitochondria_12'' @ [nl] @ ''ACGT'' @ [nl]\<rparr>"
    using inst [THEN conjunct2, THEN conjunct2, THEN conjunct2, THEN conjunct1] m
    by (simp add: last_segment_def str.simps digit_def)
  have bc: "chloroplast_body (12, ?e) ?f =
     Inr \<lparr>silva_taxonomy = ''s'' @ ''phytoref_chloroplast_12'' @ [tab]
            @ silva_chloroplast_prefix @ ''x;Mitochondria; Homo sapiens '' @ [nl],
          gg_taxonomy = ''g'' @ ''phytoref_chloroplast_12'' @ [tab]
            @ greengenes_chloroplast_prefix @ ''x;Mitochondria; Homo sapiens '' @ [nl],
          organelle_seqs = ''o'' @ ''>phytoref_chloroplast_12'' @ [nl] @ ''ACGT'' @ [nl]\<rparr>"
    using inst [THEN conjunct2, THEN conjunct2, THEN conjunct2, THEN conjunct2, THEN conjunct1] c
    by (simp add: last_segment_def str.simps digit_def)
  have run: "supplement ?f [?e] [?e] =
     Inr \<lparr>silva_taxonomy = ''Feature ID'' @ [tab] @ ''Taxon'' @ [nl]
            @ ''metaxa2_mitochondria_0'' @ [tab] @ silva_mitochondria_prefix @ '' Homo sapiens '' @ [nl]
            @ ''phytoref_chloroplast_0'' @ [tab] @ silva_chloroplast_prefix @ ''x;Mitochondria; Homo sapiens '' @ [nl],
          gg_taxonomy = ''Feature ID'' @ [tab] @ ''Taxon'' @ [nl]
            @ ''metaxa2_mitochondria_0'' @ [tab] @ greengenes_mitochondria_prefix @ '' Homo sapiens '' @ [nl]
            @ ''phytoref_chloroplast_0'' @ [tab] @ greengenes_chloroplast_prefix @ ''x;Mitochondria; Homo sapiens '' @ [nl],
          organelle_seqs = ''>metaxa2_mitochondria_0'' @ [nl] @ ''ACGT'' @ [nl]
            @ ''>phytoref_chloroplast_0'' @ [nl] @ ''ACGT'' @ [nl]\<rparr>"
    using inst [THEN conjunct2, THEN conjunct2, THEN conjunct2, THEN conjunct2, THEN conjunct2]
      m c
    by (simp add: last_segment_def str.simps digit_def)
  from sp bm bc run show ?thesis by (intro conjI)
qed

text \<open>
  C6. The three outputs depend on the two record sequences only: whatever the files held
  before, the run produces the same contents, and a second run on the files left by a
  first run leaves them as they are.
\<close>

theorem rerun_gives_same_files:
  "supplement old ms cs = supplement old' ms cs
   \<and> (\<forall>out. supplement old ms cs = Inr out \<longrightarrow> supplement out ms cs = Inr out)"
  by (simp add: supplement_eq)

theorem rerun_gives_same_files_witness:
  "supplement \<lparr>silva_taxonomy = ''first'', gg_taxonomy = ''second'', organelle_seqs = ''third''\<rparr>
     [\<lparr>description = ''M2;Mitochondria;Mus musculus'', seq = ''TTG''\<rparr>] [] =
   supplement \<lparr>silva_taxonomy = [], gg_taxonomy = [], organelle_seqs = []\<rparr>
     [\<lparr>description = ''M2;Mitochondria;Mus musculus'', seq = ''TTG''\<rparr>] []
   \<and> supplement
      \<lparr>silva_taxonomy = ''Feature ID'' @ [tab] @ ''Taxon'' @ [nl]
         @ ''metaxa2_mitochondria_0'' @ [tab] @ silva_mitochondria_prefix @ ''Mus musculus'' @ [nl],
       gg_taxonomy = ''Feature ID'' @ [tab] @ ''Taxon'' @ [nl]
         @ ''metaxa2_mitochondria_0'' @ [tab] @ greengenes_mitochondria_prefix @ ''Mus musculus'' @ [nl],
       organelle_seqs = ''>metaxa2_mitochondria_0'' @ [nl] @ ''TTG'' @ [nl]\<rparr>
      [\<lparr>description = ''M2;Mitochondria;Mus musculus'', seq = ''TTG''\<rparr>] [] =
    Inr \<lparr>silva_taxonomy = ''Feature ID'' @ [tab] @ ''Taxon'' @ [nl]
         @ ''metaxa2_mitochondria_0'' @ [tab] @ silva_mitochondria_prefix @ ''Mus musculus'' @ [nl],
       gg_taxonomy = ''Feature ID'' @ [tab] @ ''Taxon'' @ [nl]
         @ ''metaxa2_mitochondria_0'' @ [tab] @ greengenes_mitochondria_prefix @ ''Mus musculus'' @ [nl],
       organelle_seqs = ''>metaxa2_mitochondria_0'' @ [nl] @ ''TTG'' @ [nl]\<rparr>"
proof -
  let ?ms = "[\<lparr>description = ''M2;Mitochondria;Mus musculus'', seq = ''TTG''\<rparr>]"
  let ?old = "\<lparr>silva_taxonomy = ''first'', gg_taxonomy = ''second'', organelle_seqs = ''third''\<rparr>"
  let ?out = "\<lparr>silva_taxonomy = ''Feature ID'' @ [tab] @ ''Taxon'' @ [nl]
         @ ''metaxa2_mitochondria_0'' @ [tab] @ silva_mitochondria_prefix @ ''Mus musculus'' @ [nl],
       gg_taxonomy = ''Feature ID'' @ [tab] @ ''Taxon'' @ [nl]
         @ ''metaxa2_mitochondria_0'' @ [tab] @ greengenes_mitochondria_prefix @ ''Mus musculus'' @ [nl],
       organelle_seqs = ''>metaxa2_mitochondria_0'' @ [nl] @ ''TTG'' @ [nl]\<rparr>"
  have run: "supplement ?old ?ms [] = Inr ?out"
    by (simp add: supplement_def mitochondria_body_def mitochondria_test_def index_last_def
        split_def header_def str.simps digit_def Let_def)
  from rerun_gives_same_files [of ?old ?ms "[]" "\<lparr>silva_taxonomy = [], gg_taxonomy = [], organelle_seqs = []\<rparr>"]
  have "supplement ?old ?ms [] =
      supplement \<lparr>silva_taxonomy = [], gg_taxonomy = [], organelle_seqs = []\<rparr> ?ms []"
    and "supplement ?old ?ms [] = Inr ?out \<longrightarrow> supplement ?out ?ms [] = Inr ?out"
    by blast+
  with run show ?thesis by blast
qed

text \<open>
  C7. With both inputs empty the run succeeds, the FASTA file is empty and each mapping
  file holds the header row only. With one input empty the run succeeds and the outputs
  hold the header and the pieces of the other input only.
\<close>

theorem empty_inputs_give_headers_only:
  "supplement old [] [] =
     Inr \<lparr>silva_taxonomy = ''Feature ID'' @ [tab] @ ''Taxon'' @ [nl],
          gg_taxonomy = ''Feature ID'' @ [tab] @ ''Taxon'' @ [nl],
          organelle_seqs = []\<rparr>
   \<and> supplement old [] cs =
     Inr \<lparr>silva_taxonomy = (''Feature ID'' @ [tab] @ ''Taxon'' @ [nl])
            @ concat (map silva_row (retained_chloroplast cs)),
          gg_taxonomy = (''Feature ID'' @ [tab] @ ''Taxon'' @ [nl])
            @ concat (map greengenes_row (retained_chloroplast cs)),
          organelle_seqs = concat (map fasta_entry (retained_chloroplast cs))\<rparr>
   \<and> supplement old ms [] =
     Inr \<lparr>silva_taxonomy = (''Feature ID'' @ [tab] @ ''Taxon'' @ [nl])
            @ concat (map silva_row (retained_mitochondria ms)),
          gg_taxonomy = (''Feature ID'' @ [tab] @ ''Taxon'' @ [nl])
            @ concat (map greengenes_row (retained_mitochondria ms)),
          organelle_seqs = concat (map fasta_entry (retained_mitochondria ms))\<rparr>"
  by (simp add: supplement_eq retained_def retained_mitochondria_def retained_chloroplast_def
      header_def)

theorem empty_inputs_give_headers_only_witness:
  "supplement \<lparr>silva_taxonomy = ''first'', gg_taxonomy = ''second'', organelle_seqs = ''third''\<rparr>
     [] [] =
     Inr \<lparr>silva_taxonomy = ''Feature ID'' @ [tab] @ ''Taxon'' @ [nl],
          gg_taxonomy = ''Feature ID'' @ [tab] @ ''Taxon'' @ [nl],
          organelle_seqs = []\<rparr>
   \<and> supplement \<lparr>silva_taxonomy = ''first'', gg_taxonomy = ''second'', organelle_seqs = ''third''\<rparr>
     [] [\<lparr>description = ''P2|Zea mays'', seq = ''CCA''\<rparr>] =
     Inr \<lparr>silva_taxonomy = ''Feature ID'' @ [tab] @ ''Taxon'' @ [nl]
            @ ''phytoref_chloroplast_0'' @ [tab] @ silva_chloroplast_prefix @ ''Zea mays'' @ [nl],
          gg_taxonomy = ''Feature ID'' @ [tab] @ ''Taxon'' @ [nl]
            @ ''phytoref_chloroplast_0'' @ [tab] @ greengenes_chloroplast_prefix @ ''Zea mays'' @ [nl],
          organelle_seqs = ''>phytoref_chloroplast_0'' @ [nl] @ ''CCA'' @ [nl]\<rparr>
   \<and> supplement \<lparr>silva_taxonomy = ''first'', gg_taxonomy = ''second'', organelle_seqs = ''third''\<rparr>
     [\<lparr>description = ''B7;Bacteria;Vibrio'', seq = ''GGG''\<rparr>] [] =
     Inr \<lparr>silva_taxonomy = ''Feature ID'' @ [tab] @ ''Taxon'' @ [nl],
          gg_taxonomy = ''Feature ID'' @ [tab] @ ''Taxon'' @ [nl],
          organelle_seqs = []\<rparr>"
  using empty_inputs_give_headers_only
    [of "\<lparr>silva_taxonomy = ''first'', gg_taxonomy = ''second'', organelle_seqs = ''third''\<rparr>"
        "[\<lparr>description = ''P2|Zea mays'', seq = ''CCA''\<rparr>]"
        "[\<lparr>description = ''B7;Bacteria;Vibrio'', seq = ''GGG''\<rparr>]"]
  by (simp add: retained_mitochondria_def retained_chloroplast_def mitochondria_test_def
      chloroplast_test_def silva_row_def greengenes_row_def fasta_entry_def species_field_def
      last_segment_def str.simps digit_def)

text \<open>
  C8. The record with description
  \<open>accession123;Eukaryota;...;Mitochondria;Homo sapiens\<close> at position 0 passes the
  mitochondria test, its species field is \<open>Homo sapiens\<close>, and its Silva row has the
  identifier \<open>metaxa2_mitochondria_0\<close> and a label that begins with \<open>d__Bacteria; \<close> and
  ends with \<open>s__Homo sapiens\<close>.
\<close>

theorem homo_sapiens_example:
  "mitochondria_test \<lparr>description = ''accession123;Eukaryota;...;Mitochondria;Homo sapiens'', seq = s\<rparr>
   \<and> index_last (split CHR '';'' ''accession123;Eukaryota;...;Mitochondria;Homo sapiens'') =
       Inr ''Homo sapiens''
   \<and> supplement old
       [\<lparr>description = ''accession123;Eukaryota;...;Mitochondria;Homo sapiens'', seq = s\<rparr>] [] =
     Inr \<lparr>silva_taxonomy = ''Feature ID'' @ [tab] @ ''Taxon'' @ [nl]
            @ ''metaxa2_mitochondria_0'' @ [tab]
            @ ''d__Bacteria; p__Proteobacteria; c__Alphaproteobacteria; o__Rickettsiales; f__Mitochondria; g__Mitochondria; s__Homo sapiens''
            @ [nl],
          gg_taxonomy = ''Feature ID'' @ [tab] @ ''Taxon'' @ [nl]
            @ ''metaxa2_mitochondria_0'' @ [tab]
            @ ''k__Bacteria; p__Proteobacteria; c__Alphaproteobacteria; o__Rickettsiales; f__mitochondria; g__Mitochondria; s__Homo sapiens''
            @ [nl],
          organelle_seqs = ''>metaxa2_mitochondria_0'' @ [nl] @ s @ [nl]\<rparr>
   \<and> prefix ''d__Bacteria; ''
       ''d__Bacteria; p__Proteobacteria; c__Alphaproteobacteria; o__Rickettsiales; f__Mitochondria; g__Mitochondria; s__Homo sapiens''
   \<and> suffix ''s__Homo sapiens''
       ''d__Bacteria; p__Proteobacteria; c__Alphaproteobacteria; o__Rickettsiales; f__Mitochondria; g__Mitochondria; s__Homo sapiens''"
proof -
  have t: "mitochondria_test
      \<lparr>description = ''accession123;Eukaryota;...;Mitochondria;Homo sapiens'', seq = s\<rparr>"
    by (simp add: mitochondria_test_def)
  have sp: "index_last (split CHR '';'' ''accession123;Eukaryota;...;Mitochondria;Homo sapiens'') =
       Inr ''Homo sapiens''"
    by (simp add: index_last_def split_def)
  have run: "supplement old
       [\<lparr>description = ''accession123;Eukaryota;...;Mitochondria;Homo sapiens'', seq = s\<rparr>] [] =
     Inr \<lparr>silva_taxonomy = ''Feature ID'' @ [tab] @ ''Taxon'' @ [nl]
            @ ''metaxa2_mitochondria_0'' @ [tab]
            @ ''d__Bacteria; p__Proteobacteria; c__Alphaproteobacteria; o__Rickettsiales; f__Mitochondria; g__Mitochondria; s__Homo sapiens''
            @ [nl],
          gg_taxonomy = ''Feature ID'' @ [tab] @ ''Taxon'' @ [nl]
            @ ''metaxa2_mitochondria_0'' @ [tab]
            @ ''k__Bacteria; p__Proteobacteria; c__Alphaproteobacteria; o__Rickettsiales; f__mitochondria; g__Mitochondria; s__Homo sapiens''
            @ [nl],
          organelle_seqs = ''>metaxa2_mitochondria_0'' @ [nl] @ s @ [nl]\<rparr>"
    by (simp add: supplement_def mitochondria_body_def t sp header_def str.simps digit_def
        silva_mitochondria_prefix_def greengenes_mitochondria_prefix_def Let_def)
  have p: "prefix ''d__Bacteria; ''
       ''d__Bacteria; p__Proteobacteria; c__Alphaproteobacteria; o__Rickettsiales; f__Mitochondria; g__Mitochondria; s__Homo sapiens''"
    by simp
  have "''d__Bacteria; p__Proteobacteria; c__Alphaproteobacteria; o__Rickettsiales; f__Mitochondria; g__Mitochondria; s__Homo sapiens''
      = ''d__Bacteria; p__Proteobacteria; c__Alphaproteobacteria; o__Rickettsiales; f__Mitochondria; g__Mitochondria; '' @ ''s__Homo sapiens''"
    by simp
  then have s: "suffix ''s__Homo sapiens''
       ''d__Bacteria; p__Proteobacteria; c__Alphaproteobacteria; o__Rickettsiales; f__Mitochondria; g__Mitochondria; s__Homo sapiens''"
    by (simp only: suffix_def) blast
  show ?thesis
    using t sp run p s by (simp only: simp_thms)
qed

theorem homo_sapiens_example_witness:
  "supplement \<lparr>silva_taxonomy = [], gg_taxonomy = [], organelle_seqs = []\<rparr>
       [\<lparr>description = ''accession123;Eukaryota;...;Mitochondria;Homo sapiens'', seq = ''ACGT''\<rparr>] [] =
     Inr \<lparr>silva_taxonomy = ''Feature ID'' @ [tab] @ ''Taxon'' @ [nl]
            @ ''metaxa2_mitochondria_0'' @ [tab]
            @ ''d__Bacteria; p__Proteobacteria; c__Alphaproteobacteria; o__Rickettsiales; f__Mitochondria; g__Mitochondria; s__Homo sapiens''
            @ [nl],
          gg_taxonomy = ''Feature ID'' @ [tab] @ ''Taxon'' @ [nl]
            @ ''metaxa2_mitochondria_0'' @ [tab]
            @ ''k__Bacteria; p__Proteobacteria; c__Alphaproteobacteria; o__Rickettsiales; f__mitochondria; g__Mitochondria; s__Homo sapiens''
            @ [nl],
          organelle_seqs = ''>metaxa2_mitochondria_0'' @ [nl] @ ''ACGT'' @ [nl]\<rparr>"
  using homo_sapiens_example
    [of "''ACGT''" "\<lparr>silva_taxonomy = [], gg_taxonomy = [], organelle_seqs = []\<rparr>"]
  by blast

text \<open>
  C9. When a description has no occurrence of the delimiter (\<open>;\<close> for mitochondria,
  \<open>|\<close> for chloroplast), the split has the whole description as its only segment. In
  every run, the row of a retained record whose description has no delimiter holds the
  whole description as its species field, and the record is written to the three files
  as any other retained record; in particular a run on one such record writes its FASTA
  entry and its two rows after the headers.
\<close>

theorem no_delimiter_species_is_description:
  "(sep \<notin> set d \<longrightarrow> split sep d = [d] \<and> index_last (split sep d) = Inr d)
   \<and> (mitochondria_test e \<and> CHR '';'' \<notin> set (description e) \<longrightarrow>
        mitochondria_body (i, e) f =
          Inr (f\<lparr>silva_taxonomy := silva_taxonomy f @ ''metaxa2_mitochondria_'' @ str i @ [tab]
                     @ silva_mitochondria_prefix @ description e @ [nl],
                   gg_taxonomy := gg_taxonomy f @ ''metaxa2_mitochondria_'' @ str i @ [tab]
                     @ greengenes_mitochondria_prefix @ description e @ [nl],
                   organelle_seqs := organelle_seqs f @ ''>metaxa2_mitochondria_'' @ str i @ [nl]
                     @ seq e @ [nl]\<rparr>))
   \<and> (chloroplast_test e \<and> CHR ''|'' \<notin> set (description e) \<longrightarrow>
        chloroplast_body (i, e) f =
          Inr (f\<lparr>silva_taxonomy := silva_taxonomy f @ ''phytoref_chloroplast_'' @ str i @ [tab]
                     @ silva_chloroplast_prefix @ description e @ [nl],
                   gg_taxonomy := gg_taxonomy f @ ''phytoref_chloroplast_'' @ str i @ [tab]
                     @ greengenes_chloroplast_prefix @ description e @ [nl],
                   organelle_seqs := organelle_seqs f @ ''>phytoref_chloroplast_'' @ str i @ [nl]
                     @ seq e @ [nl]\<rparr>))
   \<and> supplement old ms cs =
     Inr \<lparr>silva_taxonomy = (''Feature ID'' @ [tab] @ ''Taxon'' @ [nl])
            @ concat (map (\<lambda>(k, x). (''metaxa2_mitochondria_'' @ str k) @ [tab]
                  @ silva_mitochondria_prefix @ (if CHR '';'' \<in> set (description x) then last_segment CHR '';'' (description x)
                      else description x) @ [nl])
                (filter (\<lambda>(k, x). mitochondria_test x) (enumerate 0 ms)))
            @ concat (map (\<lambda>(k, x). (''phytoref_chloroplast_'' @ str k) @ [tab]
                  @ silva_chloroplast_prefix @ (if CHR ''|'' \<in> set (description x) then last_segment CHR ''|'' (description x)
                      else description x) @ [nl])
                (filter (\<lambda>(k, x). chloroplast_test x) (enumerate 0 cs))),
          gg_taxonomy = (''Feature ID'' @ [tab] @ ''Taxon'' @ [nl])
            @ concat (map (\<lambda>(k, x). (''metaxa2_mitochondria_'' @ str k) @ [tab]
                  @ greengenes_mitochondria_prefix @ (if CHR '';'' \<in> set (description x) then last_segment CHR '';'' (description x)
                      else description x) @ [nl])
                (filter (\<lambda>(k, x). mitochondria_test x) (enumerate 0 ms)))
            @ concat (map (\<lambda>(k, x). (''phytoref_chloroplast_'' @ str k) @ [tab]
                  @ greengenes_chloroplast_prefix @ (if CHR ''|'' \<in> set (description x) then last_segment CHR ''|'' (description x)
                      else description x) @ [nl])
                (filter (\<lambda>(k, x). chloroplast_test x) (enumerate 0 cs))),
          organelle_seqs =
            concat (map (\<lambda>(k, x). ''>'' @ (''metaxa2_mitochondria_'' @ str k) @ [nl] @ seq x @ [nl])
                (filter (\<lambda>(k, x). mitochondria_test x) (enumerate 0 ms)))
            @ concat (map (\<lambda>(k, x). ''>'' @ (''phytoref_chloroplast_'' @ str k) @ [nl] @ seq x @ [nl])
                (filter (\<lambda>(k, x). chloroplast_test x) (enumerate 0 cs)))\<rparr>
   \<and> (mitochondria_test e \<and> CHR '';'' \<notin> set (description e) \<longrightarrow>
        supplement old [e] [] =
          Inr \<lparr>silva_taxonomy = (''Feature ID'' @ [tab] @ ''Taxon'' @ [nl])
                 @ ''metaxa2_mitochondria_0'' @ [tab] @ silva_mitochondria_prefix
                 @ description e @ [nl],
               gg_taxonomy = (''Feature ID'' @ [tab] @ ''Taxon'' @ [nl])
                 @ ''metaxa2_mitochondria_0'' @ [tab] @ greengenes_mitochondria_prefix
                 @ description e @ [nl],
               organelle_seqs = ''>metaxa2_mitochondria_0'' @ [nl] @ seq e @ [nl]\<rparr>)
   \<and> (chloroplast_test e \<and> CHR ''|'' \<notin> set (description e) \<longrightarrow>
        supplement old [] [e] =
          Inr \<lparr>silva_taxonomy = (''Feature ID'' @ [tab] @ ''Taxon'' @ [nl])
                 @ ''phytoref_chloroplast_0'' @ [tab] @ silva_chloroplast_prefix
                 @ description e @ [nl],
               gg_taxonomy = (''Feature ID'' @ [tab] @ ''Taxon'' @ [nl])
                 @ ''phytoref_chloroplast_0'' @ [tab] @ greengenes_chloroplast_prefix
                 @ description e @ [nl],
               organelle_seqs = ''>phytoref_chloroplast_0'' @ [nl] @ seq e @ [nl]\<rparr>)"
proof -
  have a: "sep \<notin> set d \<longrightarrow> split sep d = [d] \<and> index_last (split sep d) = Inr d"
    by (simp add: split_no_sep index_last_def)
  have m: "mitochondria_test e \<and> CHR '';'' \<notin> set (description e) \<longrightarrow>
        mitochondria_body (i, e) f =
          Inr (f\<lparr>silva_taxonomy := silva_taxonomy f @ ''metaxa2_mitochondria_'' @ str i @ [tab]
                     @ silva_mitochondria_prefix @ description e @ [nl],
                   gg_taxonomy := gg_taxonomy f @ ''metaxa2_mitochondria_'' @ str i @ [tab]
                     @ greengenes_mitochondria_prefix @ description e @ [nl],
                   organelle_seqs := organelle_seqs f @ ''>metaxa2_mitochondria_'' @ str i @ [nl]
                     @ seq e @ [nl]\<rparr>)"
    by (simp add: mitochondria_body_def split_no_sep index_last_def Let_def)
  have c: "chloroplast_test e \<and> CHR ''|'' \<notin> set (description e) \<longrightarrow>
        chloroplast_body (i, e) f =
          Inr (f\<lparr>silva_taxonomy := silva_taxonomy f @ ''phytoref_chloroplast_'' @ str i @ [tab]
                     @ silva_chloroplast_prefix @ description e @ [nl],
                   gg_taxonomy := gg_taxonomy f @ ''phytoref_chloroplast_'' @ str i @ [tab]
                     @ greengenes_chloroplast_prefix @ description e @ [nl],
                   organelle_seqs := organelle_seqs f @ ''>phytoref_chloroplast_'' @ str i @ [nl]
                     @ seq e @ [nl]\<rparr>)"
    by (simp add: chloroplast_body_def split_no_sep index_last_def Let_def)
  have run: "supplement old ms cs =
     Inr \<lparr>silva_taxonomy = (''Feature ID'' @ [tab] @ ''Taxon'' @ [nl])
            @ concat (map (\<lambda>(k, x). (''metaxa2_mitochondria_'' @ str k) @ [tab]
                  @ silva_mitochondria_prefix @ (if CHR '';'' \<in> set (description x) then last_segment CHR '';'' (description x)
                      else description x) @ [nl])
                (filter (\<lambda>(k, x). mitochondria_test x) (enumerate 0 ms)))
            @ concat (map (\<lambda>(k, x). (''phytoref_chloroplast_'' @ str k) @ [tab]
                  @ silva_chloroplast_prefix @ (if CHR ''|'' \<in> set (description x) then last_segment CHR ''|'' (description x)
                      else description x) @ [nl])
                (filter (\<lambda>(k, x). chloroplast_test x) (enumerate 0 cs))),
          gg_taxonomy = (''Feature ID'' @ [tab] @ ''Taxon'' @ [nl])
            @ concat (map (\<lambda>(k, x). (''metaxa2_mitochondria_'' @ str k) @ [tab]
                  @ greengenes_mitochondria_prefix @ (if CHR '';'' \<in> set (description x) then last_segment CHR '';'' (description x)
                      else description x) @ [nl])
                (filter (\<lambda>(k, x). mitochondria_test x) (enumerate 0 ms)))
            @ concat (map (\<lambda>(k, x). (''phytoref_chloroplast_'' @ str k) @ [tab]
                  @ greengenes_chloroplast_prefix @ (if CHR ''|'' \<in> set (description x) then last_segment CHR ''|'' (description x)
                      else description x) @ [nl])
                (filter (\<lambda>(k, x). chloroplast_test x) (enumerate 0 cs))),
          organelle_seqs =
            concat (map (\<lambda>(k, x). ''>'' @ (''metaxa2_mitochondria_'' @ str k) @ [nl] @ seq x @ [nl])
                (filter (\<lambda>(k, x). mitochondria_test x) (enumerate 0 ms)))
            @ concat (map (\<lambda>(k, x). ''>'' @ (''phytoref_chloroplast_'' @ str k) @ [nl] @ seq x @ [nl])
                (filter (\<lambda>(k, x). chloroplast_test x) (enumerate 0 cs)))\<rparr>"
    by (simp only: supplement_rows last_segment_if)
  have zero: "str 0 = ''0''"
    by (simp add: str_small digit_def)
  have sm: "mitochondria_test e \<and> CHR '';'' \<notin> set (description e) \<longrightarrow>
        supplement old [e] [] =
          Inr \<lparr>silva_taxonomy = (''Feature ID'' @ [tab] @ ''Taxon'' @ [nl])
                 @ ''metaxa2_mitochondria_0'' @ [tab] @ silva_mitochondria_prefix
                 @ description e @ [nl],
               gg_taxonomy = (''Feature ID'' @ [tab] @ ''Taxon'' @ [nl])
                 @ ''metaxa2_mitochondria_0'' @ [tab] @ greengenes_mitochondria_prefix
                 @ description e @ [nl],
               organelle_seqs = ''>metaxa2_mitochondria_0'' @ [nl] @ seq e @ [nl]\<rparr>"
    by (simp add: supplement_rows [of old "[e]" "[]"] last_segment_no_sep zero)
  have sc: "chloroplast_test e \<and> CHR ''|'' \<notin> set (description e) \<longrightarrow>
        supplement old [] [e] =
          Inr \<lparr>silva_taxonomy = (''Feature ID'' @ [tab] @ ''Taxon'' @ [nl])
                 @ ''phytoref_chloroplast_0'' @ [tab] @ silva_chloroplast_prefix
                 @ description e @ [nl],
               gg_taxonomy = (''Feature ID'' @ [tab] @ ''Taxon'' @ [nl])
                 @ ''phytoref_chloroplast_0'' @ [tab] @ greengenes_chloroplast_prefix
                 @ description e @ [nl],
               organelle_seqs = ''>phytoref_chloroplast_0'' @ [nl] @ seq e @ [nl]\<rparr>"
    by (simp add: supplement_rows [of old "[]" "[e]"] last_segment_no_sep zero)
  show ?thesis
    using a m c run sm sc by blast
qed

theorem no_delimiter_species_is_description_witness:
  "split CHR '';'' ''Mitochondria of Zea mays'' = [''Mitochondria of Zea mays'']
   \<and> mitochondria_body (7, \<lparr>description = ''Mitochondria of Zea mays'', seq = ''ACGT''\<rparr>)
       \<lparr>silva_taxonomy = ''s'', gg_taxonomy = ''g'', organelle_seqs = ''o''\<rparr> =
     Inr \<lparr>silva_taxonomy = ''s'' @ ''metaxa2_mitochondria_7'' @ [tab]
            @ silva_mitochondria_prefix @ ''Mitochondria of Zea mays'' @ [nl],
          gg_taxonomy = ''g'' @ ''metaxa2_mitochondria_7'' @ [tab]
            @ greengenes_mitochondria_prefix @ ''Mitochondria of Zea mays'' @ [nl],
          organelle_seqs = ''o'' @ ''>metaxa2_mitochondria_7'' @ [nl] @ ''ACGT'' @ [nl]\<rparr>
   \<and> chloroplast_body (7, \<lparr>description = ''Mitochondria of Zea mays'', seq = ''ACGT''\<rparr>)
       \<lparr>silva_taxonomy = ''s'', gg_taxonomy = ''g'', organelle_seqs = ''o''\<rparr> =
     Inr \<lparr>silva_taxonomy = ''s'' @ ''phytoref_chloroplast_7'' @ [tab]
            @ silva_chloroplast_prefix @ ''Mitochondria of Zea mays'' @ [nl],
          gg_taxonomy = ''g'' @ ''phytoref_chloroplast_7'' @ [tab]
            @ greengenes_chloroplast_prefix @ ''Mitochondria of Zea mays'' @ [nl],
          organelle_seqs = ''o'' @ ''>phytoref_chloroplast_7'' @ [nl] @ ''ACGT'' @ [nl]\<rparr>
   \<and> supplement \<lparr>silva_taxonomy = ''s'', gg_taxonomy = ''g'', organelle_seqs = ''o''\<rparr>
       [\<lparr>description = ''Mitochondria of Zea mays'', seq = ''ACGT''\<rparr>] [] =
     Inr \<lparr>silva_taxonomy = ''Feature ID'' @ [tab] @ ''Taxon'' @ [nl]
            @ ''metaxa2_mitochondria_0'' @ [tab] @ silva_mitochondria_prefix @ ''Mitochondria of Zea mays'' @ [nl],
          gg_taxonomy = ''Feature ID'' @ [tab] @ ''Taxon'' @ [nl]
            @ ''metaxa2_mitochondria_0'' @ [tab] @ greengenes_mitochondria_prefix @ ''Mitochondria of Zea mays'' @ [nl],
          organelle_seqs = ''>metaxa2_mitochondria_0'' @ [nl] @ ''ACGT'' @ [nl]\<rparr>
   \<and> supplement \<lparr>silva_taxonomy = ''s'', gg_taxonomy = ''g'', organelle_seqs = ''o''\<rparr>
       [] [\<lparr>description = ''Mitochondria of Zea mays'', seq = ''ACGT''\<rparr>] =
     Inr \<lparr>silva_taxonomy = ''Feature ID'' @ [tab] @ ''Taxon'' @ [nl]
            @ ''phytoref_chloroplast_0'' @ [tab] @ silva_chloroplast_prefix @ ''Mitochondria of Zea mays'' @ [nl],
          gg_taxonomy = ''Feature ID'' @ [tab] @ ''Taxon'' @ [nl]
            @ ''phytoref_chloroplast_0'' @ [tab] @ greengenes_chloroplast_prefix @ ''Mitochondria of Zea mays'' @ [nl],
          organelle_seqs = ''>phytoref_chloroplast_0'' @ [nl] @ ''ACGT'' @ [nl]\<rparr>
   \<and> supplement \<lparr>silva_taxonomy = ''s'', gg_taxonomy = ''g'', organelle_seqs = ''o''\<rparr>
       [\<lparr>description = ''Mitochondria of Zea mays'', seq = ''ACGT''\<rparr>]
       [\<lparr>description = ''Mitochondria of Zea mays'', seq = ''ACGT''\<rparr>] =
     Inr \<lparr>silva_taxonomy = ''Feature ID'' @ [tab] @ ''Taxon'' @ [nl]
            @ ''metaxa2_mitochondria_0'' @ [tab] @ silva_mitochondria_prefix @ ''Mitochondria of Zea mays'' @ [nl]
            @ ''phytoref_chloroplast_0'' @ [tab] @ silva_chloroplast_prefix @ ''Mitochondria of Zea mays'' @ [nl],
          gg_taxonomy = ''Feature ID'' @ [tab] @ ''Taxon'' @ [nl]
            @ ''metaxa2_mitochondria_0'' @ [tab] @ greengenes_mitochondria_prefix @ ''Mitochondria of Zea mays'' @ [nl]
            @ ''phytoref_chloroplast_0'' @ [tab] @ greengenes_chloroplast_prefix @ ''Mitochondria of Zea mays'' @ [nl],
          organelle_seqs = ''>metaxa2_mitochondria_0'' @ [nl] @ ''ACGT'' @ [nl]
            @ ''>phytoref_chloroplast_0'' @ [nl] @ ''ACGT'' @ [nl]\<rparr>"
proof -
  let ?e = "\<lparr>description = ''Mitochondria of Zea mays'', seq = ''ACGT''\<rparr>"
  let ?f = "\<lparr>silva_taxonomy = ''s'', gg_taxonomy = ''g'', organelle_seqs = ''o''\<rparr>"
  note inst = no_delimiter_species_is_description [where sep = "CHR '';''"
      and d = "''Mitochondria of Zea mays''" and i = 7 and e = ?e and f = ?f
      and old = ?f and ms = "[?e]" and cs = "[?e]"]
  have m: "mitochondria_test ?e"
    by (simp add: mitochondria_test_def)
  have c: "chloroplast_test ?e"
    by (simp add: chloroplast_test_def)
  have s: "CHR '';'' \<notin> set ''Mitochondria of Zea mays''"
    and b: "CHR ''|'' \<notin> set ''Mitochondria of Zea mays''"
    by simp_all
  have sp: "split CHR '';'' ''Mitochondria of Zea mays'' = [''Mitochondria of Zea mays'']"
    using inst [THEN conjunct1] s by blast
  have bm: "mitochondria_body (7, ?e) ?f =
     Inr \<lparr>silva_taxonomy = ''s'' @ ''metaxa2_mitochondria_7'' @ [tab]
            @ silva_mitochondria_prefix @ ''Mitochondria of Zea mays'' @ [nl],
          gg_taxonomy = ''g'' @ ''metaxa2_mitochondria_7'' @ [tab]
            @ greengenes_mitochondria_prefix @ ''Mitochondria of Zea mays'' @ [nl],
          organelle_seqs = ''o'' @ ''>metaxa2_mitochondria_7'' @ [nl] @ ''ACGT'' @ [nl]\<rparr>"
    using inst [THEN conjunct2, THEN conjunct1] m s
    by (simp add: str.simps digit_def)
  have bc: "chloroplast_body (7, ?e) ?f =
     Inr \<lparr>silva_taxonomy = ''s'' @ ''phytoref_chloroplast_7'' @ [tab]
            @ silva_chloroplast_prefix @ ''Mitochondria of Zea mays'' @ [nl],
          gg_taxonomy = ''g'' @ ''phytoref_chloroplast_7'' @ [tab]
            @ greengenes_chloroplast_prefix @ ''Mitochondria of Zea mays'' @ [nl],
          organelle_seqs = ''o'' @ ''>phytoref_chloroplast_7'' @ [nl] @ ''ACGT'' @ [nl]\<rparr>"
    using inst [THEN conjunct2, THEN conjunct2, THEN conjunct1] c b
    by (simp add: str.simps digit_def)
  have run: "supplement ?f [?e] [?e] =
     Inr \<lparr>silva_taxonomy = ''Feature ID'' @ [tab] @ ''Taxon'' @ [nl]
            @ ''metaxa2_mitochondria_0'' @ [tab] @ silva_mitochondria_prefix @ ''Mitochondria of Zea mays'' @ [nl]
            @ ''phytoref_chloroplast_0'' @ [tab] @ silva_chloroplast_prefix @ ''Mitochondria of Zea mays'' @ [nl],
          gg_taxonomy = ''Feature ID'' @ [tab] @ ''Taxon'' @ [nl]
            @ ''metaxa2_mitochondria_0'' @ [tab] @ greengenes_mitochondria_prefix @ ''Mitochondria of Zea mays'' @ [nl]
            @ ''phytoref_chloroplast_0'' @ [tab] @ greengenes_chloroplast_prefix @ ''Mitochondria of Zea mays'' @ [nl],
          organelle_seqs = ''>metaxa2_mitochondria_0'' @ [nl] @ ''ACGT'' @ [nl]
            @ ''>phytoref_chloroplast_0'' @ [nl] @ ''ACGT'' @ [nl]\<rparr>"
    using inst [THEN conjunct2, THEN conjunct2, THEN conjunct2, THEN conjunct1] m c
    by (simp add: str.simps digit_def)
  have sm: "supplement ?f [?e] [] =
     Inr \<lparr>silva_taxonomy = ''Feature ID'' @ [tab] @ ''Taxon'' @ [nl]
            @ ''metaxa2_mitochondria_0'' @ [tab] @ silva_mitochondria_prefix @ ''Mitochondria of Zea mays'' @ [nl],
          gg_taxonomy = ''Feature ID'' @ [tab] @ ''Taxon'' @ [nl]
            @ ''metaxa2_mitochondria_0'' @ [tab] @ greengenes_mitochondria_prefix @ ''Mitochondria of Zea mays'' @ [nl],
          organelle_seqs = ''>metaxa2_mitochondria_0'' @ [nl] @ ''ACGT'' @ [nl]\<rparr>"
    using inst [THEN conjunct2, THEN conjunct2, THEN conjunct2, THEN conjunct2, THEN conjunct1]
      m s
    by simp
  have sc: "supplement ?f [] [?e] =
     Inr \<lparr>silva_taxonomy = ''Feature ID'' @ [tab] @ ''Taxon'' @ [nl]
            @ ''phytoref_chloroplast_0'' @ [tab] @ silva_chloroplast_prefix @ ''Mitochondria of Zea mays'' @ [nl],
          gg_taxonomy = ''Feature ID'' @ [tab] @ ''Taxon'' @ [nl]
            @ ''phytoref_chloroplast_0'' @ [tab] @ greengenes_chloroplast_prefix @ ''Mitochondria of Zea mays'' @ [nl],
          organelle_seqs = ''>phytoref_chloroplast_0'' @ [nl] @ ''ACGT'' @ [nl]\<rparr>"
    using inst [THEN conjunct2, THEN conjunct2, THEN conjunct2, THEN conjunct2, THEN conjunct2]
      c b
    by simp
  from sp bm bc sm sc run show ?thesis by (intro conjI)
qed

text \<open>
  C10. In every run the two mapping files are the renderings of one and the same list of
  retained records: row by row the same feature identifier and the same species field,
  with the prefix of the convention between them. The feature identifiers of a run are
  pairwise distinct: the positions increase strictly within each category, and an
  identifier of one category is never an identifier of the other.
\<close>

theorem mapping_files_share_distinct_ids:
  "supplement old ms cs =
     Inr \<lparr>silva_taxonomy = header @ concat (map (\<lambda>(c, i, e).
              feature_id c i @ [tab] @ silva_prefix c @ species_field c e @ [nl]) (retained ms cs)),
          gg_taxonomy = header @ concat (map (\<lambda>(c, i, e).
              feature_id c i @ [tab] @ greengenes_prefix c @ species_field c e @ [nl]) (retained ms cs)),
          organelle_seqs = concat (map (\<lambda>(c, i, e).
              ''>'' @ feature_id c i @ [nl] @ seq e @ [nl]) (retained ms cs))\<rparr>
   \<and> distinct (map (\<lambda>(c, i, e). feature_id c i) (retained ms cs))
   \<and> sorted_wrt (<) (map (fst \<circ> snd) (retained_mitochondria ms))
   \<and> sorted_wrt (<) (map (fst \<circ> snd) (retained_chloroplast cs))
   \<and> feature_id Mitochondria i \<noteq> feature_id Chloroplast j"
proof -
  have rows: "silva_row = (\<lambda>(c, i, e). feature_id c i @ [tab] @ silva_prefix c @ species_field c e @ [nl])"
    "greengenes_row = (\<lambda>(c, i, e). feature_id c i @ [tab] @ greengenes_prefix c @ species_field c e @ [nl])"
    "fasta_entry = (\<lambda>(c, i, e). ''>'' @ feature_id c i @ [nl] @ seq e @ [nl])"
    by (simp_all add: fun_eq_iff silva_row_def greengenes_row_def fasta_entry_def)
  have run: "supplement old ms cs =
     Inr \<lparr>silva_taxonomy = header @ concat (map (\<lambda>(c, i, e).
              feature_id c i @ [tab] @ silva_prefix c @ species_field c e @ [nl]) (retained ms cs)),
          gg_taxonomy = header @ concat (map (\<lambda>(c, i, e).
              feature_id c i @ [tab] @ greengenes_prefix c @ species_field c e @ [nl]) (retained ms cs)),
          organelle_seqs = concat (map (\<lambda>(c, i, e).
              ''>'' @ feature_id c i @ [nl] @ seq e @ [nl]) (retained ms cs))\<rparr>"
    using supplement_eq [of old ms cs] by (simp only: rows)
  have sm: "sorted_wrt (<) (map (fst \<circ> snd) (retained_mitochondria ms))"
    using increasing_positions [of mitochondria_test 0 ms]
    by (simp add: retained_mitochondria_def comp_def)
  have sc: "sorted_wrt (<) (map (fst \<circ> snd) (retained_chloroplast cs))"
    using increasing_positions [of chloroplast_test 0 cs]
    by (simp add: retained_chloroplast_def comp_def)
  have ne: "feature_id Mitochondria i \<noteq> feature_id Chloroplast j"
    by simp
  show ?thesis
    using run distinct_feature_ids [of ms cs] sm sc ne by (simp only: simp_thms)
qed

theorem mapping_files_share_distinct_ids_witness:
  "map (\<lambda>(c, i, e). feature_id c i)
     (retained
        [\<lparr>description = ''M1;mitochondria;Bos taurus'', seq = ''AAC''\<rparr>,
         \<lparr>description = ''B7;Bacteria;Vibrio'', seq = ''GGG''\<rparr>,
         \<lparr>description = ''M2;Mitochondria;Mus musculus'', seq = ''TTG''\<rparr>]
        [\<lparr>description = ''P1|Pinus'', seq = ''ACGT''\<rparr>,
         \<lparr>description = ''P2|Zea mays'', seq = ''CCA''\<rparr>]) =
     [''metaxa2_mitochondria_0'', ''metaxa2_mitochondria_2'',
      ''phytoref_chloroplast_0'', ''phytoref_chloroplast_1'']
   \<and> distinct (map (\<lambda>(c, i, e). feature_id c i)
     (retained
        [\<lparr>description = ''M1;mitochondria;Bos taurus'', seq = ''AAC''\<rparr>,
         \<lparr>description = ''B7;Bacteria;Vibrio'', seq = ''GGG''\<rparr>,
         \<lparr>description = ''M2;Mitochondria;Mus musculus'', seq = ''TTG''\<rparr>]
        [\<lparr>description = ''P1|Pinus'', seq = ''ACGT''\<rparr>,
         \<lparr>description = ''P2|Zea mays'', seq = ''CCA''\<rparr>]))"
proof -
  let ?ms = "[\<lparr>description = ''M1;mitochondria;Bos taurus'', seq = ''AAC''\<rparr>,
         \<lparr>description = ''B7;Bacteria;Vibrio'', seq = ''GGG''\<rparr>,
         \<lparr>description = ''M2;Mitochondria;Mus musculus'', seq = ''TTG''\<rparr>]"
  let ?cs = "[\<lparr>description = ''P1|Pinus'', seq = ''ACGT''\<rparr>,
         \<lparr>description = ''P2|Zea mays'', seq = ''CCA''\<rparr>]"
  have ids: "map (\<lambda>(c, i, e). feature_id c i) (retained ?ms ?cs) =
     [''metaxa2_mitochondria_0'', ''metaxa2_mitochondria_2'',
      ''phytoref_chloroplast_0'', ''phytoref_chloroplast_1'']"
    by (simp add: retained_def retained_mitochondria_def retained_chloroplast_def
        mitochondria_test_def chloroplast_test_def str.simps digit_def)
  from mapping_files_share_distinct_ids [of _ ?ms ?cs]
  have "distinct (map (\<lambda>(c, i, e). feature_id c i) (retained ?ms ?cs))"
    by blast
  with ids show ?thesis by (rule conjI)
qed

end
